theory Spec2Isabelle
  imports Main
begin

section \<open>JavaScript strings\<close>

text \<open>
  A JavaScript string is modelled as the list of its UTF-16 code units; the model covers
  code units below 256, so a string is a \<^typ>\<open>string\<close> and \<open>length\<close> is the
  source's \<open>.length\<close>. Within that range the regular-expression class \<open>\s\<close> (and the
  characters removed by \<open>trim()\<close>) is tab, line feed, vertical tab, form feed, carriage
  return, space and the no-break space U+00A0.
\<close>

definition isWs :: "char \<Rightarrow> bool" where
  "isWs c = (c = CHR 0x09 \<or> c = CHR 0x0A \<or> c = CHR 0x0B \<or> c = CHR 0x0C \<or> c = CHR 0x0D
     \<or> c = CHR 0x20 \<or> c = CHR 0xA0)"

definition isDigit :: "char \<Rightarrow> bool" where
  "isDigit c = (c = CHR ''0'' \<or> c = CHR ''1'' \<or> c = CHR ''2'' \<or> c = CHR ''3'' \<or> c = CHR ''4''
     \<or> c = CHR ''5'' \<or> c = CHR ''6'' \<or> c = CHR ''7'' \<or> c = CHR ''8'' \<or> c = CHR ''9'')"

text \<open>\<open>s.startsWith(p)\<close> and \<open>s.includes(p)\<close>.\<close>

fun startsWith :: "string \<Rightarrow> string \<Rightarrow> bool" where
  "startsWith s [] = True"
| "startsWith [] (p # ps) = False"
| "startsWith (c # cs) (p # ps) = (c = p \<and> startsWith cs ps)"

fun includesStr :: "string \<Rightarrow> string \<Rightarrow> bool" where
  "includesStr [] p = (p = [])"
| "includesStr (c # cs) p = (startsWith (c # cs) p \<or> includesStr cs p)"

text \<open>
  \<open>s.split(sep)\<close> for a non-empty separator string: the pieces between the
  non-overlapping occurrences of \<open>sep\<close>, found from the left. \<open>skip\<close> counts the
  characters of a matched separator that are still to be passed over.
\<close>

fun splitAcc :: "string \<Rightarrow> nat \<Rightarrow> string \<Rightarrow> string \<Rightarrow> string list" where
  "splitAcc sep skip cur [] = [cur]"
| "splitAcc sep skip cur (c # cs) =
     (if 0 < skip then splitAcc sep (skip - 1) cur cs
      else if startsWith (c # cs) sep then cur # splitAcc sep (length sep - 1) [] cs
      else splitAcc sep 0 (cur @ [c]) cs)"

definition splitStr :: "string \<Rightarrow> string \<Rightarrow> string list" where
  "splitStr s sep = splitAcc sep 0 [] s"

text \<open>
  \<open>s.split(/\s+/)\<close>: the pieces between the maximal runs of whitespace. The empty
  string gives one empty piece; leading or trailing whitespace gives an empty first or
  last piece.
\<close>

fun splitWsAcc :: "bool \<Rightarrow> string \<Rightarrow> string \<Rightarrow> string list" where
  "splitWsAcc inWs cur [] = [cur]"
| "splitWsAcc inWs cur (c # cs) =
     (if isWs c then (if inWs then splitWsAcc True [] cs else cur # splitWsAcc True [] cs)
      else splitWsAcc False (cur @ [c]) cs)"

definition splitWhitespace :: "string \<Rightarrow> string list" where
  "splitWhitespace s = splitWsAcc False [] s"

text \<open>\<open>s.trim()\<close>, \<open>s.slice(0, n)\<close> and \<open>s.replace(/\n/g, ' ')\<close>.\<close>

definition trim :: "string \<Rightarrow> string" where
  "trim s = rev (dropWhile isWs (rev (dropWhile isWs s)))"

definition replaceNewlines :: "string \<Rightarrow> string" where
  "replaceNewlines s = map (\<lambda>c. if c = CHR 0x0A then CHR 0x20 else c) s"

text \<open>\<open>s.replace(/"/g, '\\"')\<close>: a backslash before every double quote.\<close>

definition escapeQuotes :: "string \<Rightarrow> string" where
  "escapeQuotes s = concat (map (\<lambda>c. if c = CHR 0x22 then [CHR 0x5C, CHR 0x22] else [c]) s)"

text \<open>
  \<open>s.replace(t, '')\<close> with a string pattern: the first occurrence of \<open>t\<close> is removed,
  wherever it stands.
\<close>

fun removeFirst :: "string \<Rightarrow> string \<Rightarrow> string" where
  "removeFirst [] t = []"
| "removeFirst (c # cs) t =
     (if startsWith (c # cs) t then drop (length t) (c # cs) else c # removeFirst cs t)"

text \<open>Decimal digits of a number, as template literals and string concatenation print it.\<close>

definition digitChar :: "nat \<Rightarrow> char" where
  "digitChar d = (if d = 0 then CHR ''0'' else if d = 1 then CHR ''1'' else if d = 2 then CHR ''2''
     else if d = 3 then CHR ''3'' else if d = 4 then CHR ''4'' else if d = 5 then CHR ''5''
     else if d = 6 then CHR ''6'' else if d = 7 then CHR ''7'' else if d = 8 then CHR ''8''
     else CHR ''9'')"

fun showNat :: "nat \<Rightarrow> string" where
  "showNat n = (if n < 10 then [digitChar n] else showNat (n div 10) @ [digitChar (n mod 10)])"

declare showNat.simps [simp del]

text \<open>
  The first match of \<open>/^# (.+)$/m\<close>: the first line (lines end at a line feed or a
  carriage return, which \<open>.\<close> does not match) that starts with \<open># \<close> and has at least
  one more character. The result is the captured group; the whole match is \<open># \<close>
  followed by it.
\<close>

fun splitLines :: "string \<Rightarrow> string \<Rightarrow> string list" where
  "splitLines cur [] = [cur]"
| "splitLines cur (c # cs) =
     (if c = CHR 0x0A \<or> c = CHR 0x0D then cur # splitLines [] cs else splitLines (cur @ [c]) cs)"

fun firstHeading :: "string list \<Rightarrow> string option" where
  "firstHeading [] = None"
| "firstHeading (l # ls) =
     (if startsWith l ''# '' \<and> 2 < length l then Some (drop 2 l) else firstHeading ls)"

definition matchTitle :: "string \<Rightarrow> string option" where
  "matchTitle s = firstHeading (splitLines [] s)"

section \<open>Metadata synthesis: \<open>convertToMagiFormat\<close>\<close>

text \<open>\<open>lines.join(sep)\<close>.\<close>

fun joinWith :: "string \<Rightarrow> string list \<Rightarrow> string" where
  "joinWith sep [] = []"
| "joinWith sep [x] = x"
| "joinWith sep (x # y # ys) = x @ sep @ joinWith sep (y # ys)"

text \<open>
  \<open>JSON.stringify\<close> of an array of strings; within a string the double quote and the
  backslash are escaped (the values printed here are words of fixed vocabularies).
\<close>

definition jsonString :: "string \<Rightarrow> string" where
  "jsonString s = [CHR 0x22]
     @ concat (map (\<lambda>c. if c = CHR 0x22 \<or> c = CHR 0x5C then [CHR 0x5C, c] else [c]) s)
     @ [CHR 0x22]"

definition jsonStringArray :: "string list \<Rightarrow> string" where
  "jsonStringArray xs = ''['' @ joinWith '','' (map jsonString xs) @ '']''"

text \<open>
  What one call of \<open>convertToMagiFormat\<close> takes from outside the markdown: the fresh
  identifier and clock readings, and the keyword heuristics for images, entities, purpose,
  audience and tags, which are functions of the markdown alone.
\<close>

record magiEnv =
  uuidv4 :: string
  nowIso :: string
  dateNowSummary :: nat
  dateNowEntity :: nat
  images :: "string \<Rightarrow> string list"
  entities :: "string \<Rightarrow> string list"
  purpose :: "string \<Rightarrow> string"
  audiences :: "string \<Rightarrow> string list"
  tags :: "string \<Rightarrow> string list"

definition title :: "string \<Rightarrow> string" where
  "title markdown = (case matchTitle markdown of Some t \<Rightarrow> t | None \<Rightarrow> ''Untitled Document'')"

fun firstParagraph :: "string list \<Rightarrow> string" where
  "firstParagraph [] = []"
| "firstParagraph (para # paragraphs) =
     (let cleanPara = trim para in
      if cleanPara \<noteq> [] \<and> \<not> startsWith cleanPara ''#'' \<and> \<not> startsWith cleanPara ''```''
         \<and> \<not> startsWith cleanPara ''|'' \<and> \<not> startsWith cleanPara ''!''
      then (let d = take 150 (replaceNewlines cleanPara) in
            if length d = 150 then d @ ''...'' else d)
      else firstParagraph paragraphs)"

definition description :: "string \<Rightarrow> string" where
  "description markdown = firstParagraph (splitStr markdown [CHR 0x0A, CHR 0x0A])"

text \<open>
  \<open>Math.round(n / d)\<close> for natural numbers: \<open>Math.round\<close> rounds to the nearest
  integer, a half upwards, that is \<open>floor (n / d + 1 / 2)\<close>.
\<close>

definition mathRoundDiv :: "nat \<Rightarrow> nat \<Rightarrow> nat" where
  "mathRoundDiv n d = (2 * n + d) div (2 * d)"

definition wordCount :: "string \<Rightarrow> nat" where
  "wordCount markdown = length (splitWhitespace markdown)"

definition readingTimeMinutes :: "string \<Rightarrow> nat" where
  "readingTimeMinutes markdown = max 1 (mathRoundDiv (wordCount markdown) 200)"

definition imageLines :: "string list \<Rightarrow> string list" where
  "imageLines imgs =
     (if 0 < length imgs then
        (if length imgs = 1 then [''image: '' @ [CHR 0x22] @ hd imgs @ [CHR 0x22]]
         else ''images-list:'' # map (\<lambda>img. ''  - '' @ [CHR 0x22] @ img @ [CHR 0x22]) imgs)
      else [])"

definition entityLines :: "string list \<Rightarrow> string list" where
  "entityLines ents =
     (if 0 < length ents then
        ''entities:'' # map (\<lambda>e. ''  - '' @ [CHR 0x22] @ escapeQuotes e @ [CHR 0x22]) ents
      else [])"

definition yamlLines :: "magiEnv \<Rightarrow> string \<Rightarrow> string \<Rightarrow> string list" where
  "yamlLines env url markdown =
     [''---'',
      ''doc-id: '' @ [CHR 0x22] @ uuidv4 env @ [CHR 0x22],
      ''title: '' @ [CHR 0x22] @ escapeQuotes (title markdown) @ [CHR 0x22],
      ''description: '' @ [CHR 0x22] @ escapeQuotes (description markdown) @ [CHR 0x22],
      ''created-date: '' @ [CHR 0x22] @ nowIso env @ [CHR 0x22],
      ''updated-date: '' @ [CHR 0x22] @ nowIso env @ [CHR 0x22],
      ''source-url: '' @ [CHR 0x22] @ url @ [CHR 0x22],
      ''purpose: '' @ [CHR 0x22] @ purpose env markdown @ [CHR 0x22],
      ''audience: '' @ jsonStringArray (audiences env markdown),
      ''tags: '' @ jsonStringArray (tags env markdown),
      ''reading-time-minutes: '' @ showNat (readingTimeMinutes markdown)]
     @ imageLines (take 5 (images env markdown))
     @ entityLines (take 10 (entities env markdown))
     @ [''---'', []]"

definition summaryScript :: "nat \<Rightarrow> string" where
  "summaryScript now = joinWith [CHR 0x0A]
     [[],
      ''<!-- AI-PROCESSOR: Content blocks marked with ```ai-script are instructions for AI systems -->'',
      ''```ai-script'',
      ''{'',
      ''  '' @ [CHR 0x22] @ ''script-id'' @ [CHR 0x22] @ '': '' @ [CHR 0x22] @ ''doc-summary-''
         @ showNat now @ [CHR 0x22] @ '','',
      ''  '' @ [CHR 0x22] @ ''prompt'' @ [CHR 0x22] @ '': '' @ [CHR 0x22]
         @ ''Provide a concise summary of the main points covered in this document. Focus on the key information, main arguments, and important conclusions.''
         @ [CHR 0x22] @ '','',
      ''  '' @ [CHR 0x22] @ ''auto-run'' @ [CHR 0x22] @ '': true,'',
      ''  '' @ [CHR 0x22] @ ''priority'' @ [CHR 0x22] @ '': '' @ [CHR 0x22] @ ''medium''
         @ [CHR 0x22] @ '','',
      ''  '' @ [CHR 0x22] @ ''output-format'' @ [CHR 0x22] @ '': '' @ [CHR 0x22] @ ''markdown''
         @ [CHR 0x22],
      ''}'',
      ''```'']"

definition entityScript :: "nat \<Rightarrow> string" where
  "entityScript now = joinWith [CHR 0x0A]
     [[],
      ''<!-- AI-PROCESSOR: Entity extraction for long documents -->'',
      ''```ai-script'',
      ''{'',
      ''  '' @ [CHR 0x22] @ ''script-id'' @ [CHR 0x22] @ '': '' @ [CHR 0x22] @ ''entity-extract-''
         @ showNat now @ [CHR 0x22] @ '','',
      ''  '' @ [CHR 0x22] @ ''prompt'' @ [CHR 0x22] @ '': '' @ [CHR 0x22]
         @ ''Extract the key entities (people, organizations, technologies, concepts) mentioned in this document and provide a brief explanation of their significance in the context of this content.''
         @ [CHR 0x22] @ '','',
      ''  '' @ [CHR 0x22] @ ''auto-run'' @ [CHR 0x22] @ '': false,'',
      ''  '' @ [CHR 0x22] @ ''interactive-type'' @ [CHR 0x22] @ '': '' @ [CHR 0x22] @ ''button''
         @ [CHR 0x22] @ '','',
      ''  '' @ [CHR 0x22] @ ''interactive-label'' @ [CHR 0x22] @ '': '' @ [CHR 0x22]
         @ ''Extract Key Entities'' @ [CHR 0x22] @ '','',
      ''  '' @ [CHR 0x22] @ ''priority'' @ [CHR 0x22] @ '': '' @ [CHR 0x22] @ ''low''
         @ [CHR 0x22] @ '','',
      ''  '' @ [CHR 0x22] @ ''output-format'' @ [CHR 0x22] @ '': '' @ [CHR 0x22] @ ''markdown''
         @ [CHR 0x22],
      ''}'',
      ''```'']"

definition convertToMagiFormat :: "magiEnv \<Rightarrow> string \<Rightarrow> string \<Rightarrow> string" where
  "convertToMagiFormat env url markdown =
     (let magiDocument = joinWith [CHR 0x0A] (yamlLines env url markdown);
          magiDocument = magiDocument @ markdown
      in if 1000 < length markdown then
           (let magiDocument = magiDocument @ summaryScript (dateNowSummary env)
            in if 3000 < length markdown
               then magiDocument @ [CHR 0x0A] @ entityScript (dateNowEntity env)
               else magiDocument)
         else magiDocument)"

text \<open>What \<open>convertToMagiFormat\<close> puts after the front matter and the body.\<close>

definition appendedAfterBody :: "magiEnv \<Rightarrow> string \<Rightarrow> string \<Rightarrow> string" where
  "appendedAfterBody env url markdown =
     drop (length (joinWith [CHR 0x0A] (yamlLines env url markdown)) + length markdown)
       (convertToMagiFormat env url markdown)"

text \<open>
  The specification's reading time, for comparison with the source's: the number of
  whitespace-separated words (maximal runs of characters that are not whitespace), divided
  by 200 and rounded up, at least 1.
\<close>

fun countWordsFrom :: "bool \<Rightarrow> string \<Rightarrow> nat" where
  "countWordsFrom inWord [] = 0"
| "countWordsFrom inWord (c # cs) =
     (if isWs c then countWordsFrom False cs
      else (if inWord then 0 else 1) + countWordsFrom True cs)"

definition specWordCount :: "string \<Rightarrow> nat" where
  "specWordCount s = countWordsFrom False s"

definition specReadingTime :: "string \<Rightarrow> nat" where
  "specReadingTime s = max 1 ((specWordCount s + 199) div 200)"

definition exampleMagiEnv :: magiEnv where
  "exampleMagiEnv = \<lparr>uuidv4 = ''00000000-0000-4000-8000-000000000000'',
     nowIso = ''2025-01-01T00:00:00.000Z'', dateNowSummary = 1735689600000,
     dateNowEntity = 1735689600001, images = (\<lambda>_. []), entities = (\<lambda>_. []),
     purpose = (\<lambda>_. ''information''), audiences = (\<lambda>_. [''general'']),
     tags = (\<lambda>_. [''information''])\<rparr>"

section \<open>The Durable Object and its collaborators\<close>

text \<open>
  One conversion result, \<open>{ url, md, error?, status?, errorDetails? }\<close>; an optional
  field that is absent is \<open>None\<close>.
\<close>

record result =
  res_url :: string
  res_md :: string
  res_error :: "bool option"
  res_status :: "nat option"
  res_errorDetails :: "string option"

text \<open>
  The extraction strategies a URL can be routed to, one per branch of the routing chain of
  \<open>getWebsiteMarkdown\<close> (each branch logs its decision).
\<close>

datatype strategy = YouTube | TwitterProfile | TwitterTweet | TwitterFallback | Reddit | DefaultPage

text \<open>
  The effects on the outside world, in the order they happen (the newest first in the
  trace): probes and launches of the browser, session clean-up, closing the browser handle,
  the alarm and the storage of the Durable Object, the rate limiter, the routing decision
  logged for a URL, page fetches by the generic handler, and deletions in the cache.
\<close>

datatype event =
    Probe nat bool
  | Launch bool
  | ListSessions bool
  | CloseSession string bool
  | CloseBrowser nat bool
  | SetAlarm bool
  | StoragePut nat bool
  | RateLimitCheck bool
  | Routed string strategy
  | HandlerCall strategy string
  | PageFetch string
  | LlmFilterCall
  | ApiCall string
  | LinkExtraction string
  | CacheDelete string

text \<open>
  The state: the fields of the \<open>Browser\<close> class (\<open>keptAliveInSeconds\<close>, \<open>browser\<close> as the
  handle's identity, \<open>token\<close>, \<open>llmFilter\<close>), the stored counter and the alarm of its
  \<open>storage\<close>, the key-value namespace \<open>MDA_CACHE\<close> (each value with the
  \<open>expirationTtl\<close> it was put with), the trace, and a clock that counts the calls made to
  the outside world.
\<close>

record world =
  keptAliveInSeconds :: nat
  storedKeptAlive :: "nat option"
  alarmSet :: bool
  browser :: "nat option"
  token :: string
  llmFilter :: bool
  cache :: "string \<rightharpoonup> string \<times> nat"
  trace :: "event list"
  clock :: nat

text \<open>
  What the outside world answers. An answer may depend on when it is asked (the clock).
  \<open>KEEP_BROWSER_ALIVE_IN_SECONDS\<close> is a constant of a file that is not among the
  sources, and \<open>BACKEND_SECURITY_TOKEN\<close> a secret of the deployment. A handler that may
  throw answers \<open>Inl\<close> with the error's message. \<open>urlHasNocache\<close> is
  \<open>new URL(url).searchParams.has('nocache')\<close> and \<open>urlSetNocache\<close> is the URL
  serialised again after \<open>searchParams.set('nocache', 'true')\<close>; both are \<open>Inl\<close>
  where \<open>new URL(url)\<close> throws. The outcomes of the forum's APIs are the branches
  of \<open>fetchRedditPublicApi\<close> and \<open>fetchRedditAuthenticatedApi\<close>: a listing carries
  the markdown \<open>formatRedditData\<close> makes of it, a token response the access token and
  the response text. \<open>pageLinks\<close> is the link extraction of a crawl (\<open>Inl\<close> when
  opening the seed page throws).
\<close>

datatype publicOutcome =
    PubRateLimited
  | PubNotOk nat string
  | PubParseError
  | PubApiError string
  | PubListing string
  | PubThrew string

datatype tokenOutcome =
    TokNotOk nat
  | TokParseError string
  | TokResponse string string
  | TokThrew string

datatype authOutcome =
    AuthUnauthorized
  | AuthNotOk nat string
  | AuthParseError string
  | AuthApiError string
  | AuthListing string
  | AuthThrew string

record env =
  KEEP_BROWSER_ALIVE_IN_SECONDS :: nat
  BACKEND_SECURITY_TOKEN :: string
  launchOk :: "nat \<Rightarrow> bool"
  probeOk :: "nat \<Rightarrow> bool"
  sessionsAt :: "nat \<Rightarrow> (string \<times> bool) list option"
  closeOk :: "nat \<Rightarrow> bool"
  setAlarmOk :: "nat \<Rightarrow> bool"
  storagePutOk :: "nat \<Rightarrow> bool"
  rateLimitOk :: "nat \<Rightarrow> bool"
  urlHasNocache :: "string \<Rightarrow> string + bool"
  urlSetNocache :: "string \<Rightarrow> string + string"
  handleDefaultPage :: "nat \<Rightarrow> string \<Rightarrow> string"
  applyLlmFilter :: "nat \<Rightarrow> string \<Rightarrow> string"
  getYouTubeMetadata :: "nat \<Rightarrow> string \<Rightarrow> string + string"
  handleTwitterProfilePage :: "nat \<Rightarrow> string \<Rightarrow> string + string \<times> bool option"
  handleTwitterTweetPage :: "nat \<Rightarrow> string \<Rightarrow> string + string \<times> bool option"
  redditCredentials :: bool
  redditPublic :: "nat \<Rightarrow> string \<Rightarrow> publicOutcome"
  redditToken :: "nat \<Rightarrow> tokenOutcome"
  redditAuth :: "nat \<Rightarrow> string \<Rightarrow> authOutcome"
  pageLinks :: "nat \<Rightarrow> string \<Rightarrow> string + string list"
  magi :: "nat \<Rightarrow> magiEnv"

definition tick :: "event \<Rightarrow> world \<Rightarrow> world" where
  "tick e w = w\<lparr>trace := e # trace w, clock := Suc (clock w)\<rparr>"

subsection \<open>The resource handle: \<open>isBrowserConnected\<close> and \<open>ensureBrowser\<close>\<close>

text \<open>
  \<open>isBrowserConnected\<close>: without a handle, false; otherwise the probe
  \<open>browser.version()\<close>, any exception of which counts as not connected.
\<close>

definition isBrowserConnected :: "env \<Rightarrow> world \<Rightarrow> bool \<times> world" where
  "isBrowserConnected e w =
     (case browser w of
        None \<Rightarrow> (False, w)
      | Some h \<Rightarrow> (probeOk e (clock w), tick (Probe h (probeOk e (clock w))) w))"

text \<open>
  \<open>puppeteer.launch\<close>: on success \<open>this.browser\<close> is the new handle (named by the time
  of its launch); on failure the field keeps its value.
\<close>

definition launch :: "env \<Rightarrow> world \<Rightarrow> bool \<times> world" where
  "launch e w =
     (if launchOk e (clock w) then (True, (tick (Launch True) w)\<lparr>browser := Some (clock w)\<rparr>)
      else (False, tick (Launch False) w))"

text \<open>
  The clean-up between two launch attempts: the sessions are listed and each one is
  connected to and closed inside its own \<open>try\<close>, so a failure is logged and the loop goes
  on; a failure of the listing itself ends the clean-up, not the retry loop.
\<close>

fun closeSessions :: "(string \<times> bool) list \<Rightarrow> world \<Rightarrow> world" where
  "closeSessions [] w = w"
| "closeSessions ((sessionId, ok) # sessions) w =
     closeSessions sessions (tick (CloseSession sessionId ok) w)"

definition cleanupSessions :: "env \<Rightarrow> world \<Rightarrow> world" where
  "cleanupSessions e w =
     (case sessionsAt e (clock w) of
        None \<Rightarrow> tick (ListSessions False) w
      | Some sessions \<Rightarrow> closeSessions sessions (tick (ListSessions True) w))"

text \<open>
  The loop \<open>while (retries > 0)\<close> of \<open>ensureBrowser\<close>, by recursion on \<open>retries\<close>: an
  iteration either returns or has decremented \<open>retries\<close>. The last equation is the
  \<open>return false\<close> after the loop.
\<close>

fun ensureLoop :: "env \<Rightarrow> nat \<Rightarrow> world \<Rightarrow> bool \<times> world" where
  "ensureLoop e (Suc retries) w =
     (let (connected, w1) = (if browser w = None then (False, w) else isBrowserConnected e w)
      in if \<not> connected then
           (let (launched, w2) = launch e w1
            in if launched then (True, w2)
               else if retries = 0 then (False, w2)
               else ensureLoop e retries (cleanupSessions e w2))
         else (True, w1))"
| "ensureLoop e 0 w = (False, w)"

definition ensureBrowser :: "env \<Rightarrow> world \<Rightarrow> bool \<times> world" where
  "ensureBrowser e w = ensureLoop e 3 w"

subsection \<open>The idle lifecycle: \<open>alarm\<close> and \<open>ensureAlarmIsSet\<close>\<close>

text \<open>
  \<open>storage.setAlarm\<close> and \<open>storage.put\<close> may throw; the result says whether the call
  returned.
\<close>

definition setAlarm :: "env \<Rightarrow> world \<Rightarrow> bool \<times> world" where
  "setAlarm e w =
     (if setAlarmOk e (clock w) then (True, (tick (SetAlarm True) w)\<lparr>alarmSet := True\<rparr>)
      else (False, tick (SetAlarm False) w))"

definition storagePut :: "env \<Rightarrow> nat \<Rightarrow> world \<Rightarrow> bool \<times> world" where
  "storagePut e v w =
     (if storagePutOk e (clock w)
      then (True, (tick (StoragePut v True) w)\<lparr>storedKeptAlive := Some v\<rparr>)
      else (False, tick (StoragePut v False) w))"

text \<open>
  \<open>this.browser.close()\<close> inside its own \<open>try\<close>, then \<open>this.browser = undefined\<close>,
  under the guard \<open>if (this.browser)\<close>.
\<close>

definition closeBrowser :: "env \<Rightarrow> world \<Rightarrow> world" where
  "closeBrowser e w =
     (case browser w of
        None \<Rightarrow> w
      | Some h \<Rightarrow> (tick (CloseBrowser h (closeOk e (clock w))) w)\<lparr>browser := None\<rparr>)"

text \<open>
  The handler \<open>alarm()\<close>. The counter grows by 10; below the threshold the alarm is set
  again, otherwise the browser is shut down; then the counter is stored. An exception of
  the storage lands in the \<open>catch\<close>, which tries to set the alarm once more.
\<close>

definition alarm :: "env \<Rightarrow> world \<Rightarrow> world" where
  "alarm e w =
     (let w1 = w\<lparr>keptAliveInSeconds := keptAliveInSeconds w + 10\<rparr>;
          (ok, w2) = (if keptAliveInSeconds w1 < KEEP_BROWSER_ALIVE_IN_SECONDS e
                      then setAlarm e w1 else (True, closeBrowser e w1));
          (ok, w3) = (if ok then storagePut e (keptAliveInSeconds w2) w2 else (False, w2))
      in if ok then w3 else snd (setAlarm e w3))"

text \<open>
  The platform runs \<open>alarm()\<close> when the scheduled alarm is due, and the alarm is then no
  longer scheduled; with no alarm scheduled nothing fires.
\<close>

definition timerFires :: "env \<Rightarrow> world \<Rightarrow> world option" where
  "timerFires e w = (if alarmSet w then Some (alarm e (w\<lparr>alarmSet := False\<rparr>)) else None)"

fun timerFiresTimes :: "env \<Rightarrow> nat \<Rightarrow> world \<Rightarrow> world option" where
  "timerFiresTimes e 0 w = Some w"
| "timerFiresTimes e (Suc n) w =
     (case timerFires e w of None \<Rightarrow> None | Some w' \<Rightarrow> timerFiresTimes e n w')"

text \<open>\<open>ensureAlarmIsSet\<close>: an alarm is set when \<open>getAlarm()\<close> is \<open>null\<close>.\<close>

definition ensureAlarmIsSet :: "env \<Rightarrow> world \<Rightarrow> world" where
  "ensureAlarmIsSet e w = (if \<not> alarmSet w then snd (setAlarm e w) else w)"

text \<open>The number of times the browser handle was closed, and of launch attempts.\<close>

fun isCloseBrowser :: "event \<Rightarrow> bool" where
  "isCloseBrowser (CloseBrowser h ok) = True"
| "isCloseBrowser ev = False"

fun isLaunch :: "event \<Rightarrow> bool" where
  "isLaunch (Launch ok) = True"
| "isLaunch ev = False"

fun isListSessions :: "event \<Rightarrow> bool" where
  "isListSessions (ListSessions ok) = True"
| "isListSessions ev = False"

definition closes :: "world \<Rightarrow> nat" where
  "closes w = length (filter isCloseBrowser (trace w))"

definition launchAttempts :: "world \<Rightarrow> nat" where
  "launchAttempts w = length (filter isLaunch (trace w))"

definition sessionListings :: "world \<Rightarrow> nat" where
  "sessionListings w = length (filter isListSessions (trace w))"

section \<open>Routing, the cache and the per-URL operation\<close>

text \<open>The conditions of the routing chain.\<close>

definition isYouTubeUrl :: "string \<Rightarrow> bool" where
  "isYouTubeUrl url = (includesStr url ''youtube.com/watch'' \<or> includesStr url ''youtu.be/'')"

definition isTwitterUrl :: "string \<Rightarrow> bool" where
  "isTwitterUrl url = (startsWith url ''https://x.com'' \<or> startsWith url ''https://twitter.com'')"

definition isRedditUrl :: "string \<Rightarrow> bool" where
  "isRedditUrl url = includesStr url ''reddit.com/r/''"

text \<open>
  \<open>urlParts = url.split('/')\<close>, \<open>lastPart\<close> its last element, and
  \<open>isLikelyStatus = /^[0-9]+$/.test(lastPart.split('?')[0])\<close>.
\<close>

definition urlParts :: "string \<Rightarrow> string list" where
  "urlParts url = splitStr url ''/''"

definition lastPart :: "string \<Rightarrow> string" where
  "lastPart url = last (urlParts url)"

definition isLikelyStatus :: "string \<Rightarrow> bool" where
  "isLikelyStatus url =
     (let p = hd (splitStr (lastPart url) ''?'') in p \<noteq> [] \<and> list_all isDigit p)"

text \<open>The key-value namespace: \<open>get\<close> gives the value or \<open>null\<close>.\<close>

definition cacheGet :: "world \<Rightarrow> string \<Rightarrow> string option" where
  "cacheGet w key = (case cache w key of None \<Rightarrow> None | Some (v, ttl) \<Rightarrow> Some v)"

definition cachePut :: "string \<Rightarrow> string \<Rightarrow> nat \<Rightarrow> world \<Rightarrow> world" where
  "cachePut key v ttl w = w\<lparr>cache := (cache w)(key \<mapsto> (v, ttl))\<rparr>"

definition cacheDelete :: "string \<Rightarrow> world \<Rightarrow> world" where
  "cacheDelete key w = w\<lparr>cache := (cache w)(key := None), trace := CacheDelete key # trace w\<rparr>"

definition logEvent :: "event \<Rightarrow> world \<Rightarrow> world" where
  "logEvent ev w = w\<lparr>trace := ev # trace w\<rparr>"

subsection \<open>The forum handler \<open>handleRedditURL\<close>\<close>

text \<open>
  \<open>url.match(/reddit\.com\/r\/([A-Za-z0-9_-]+)/i)\<close>: the first place where
  \<open>reddit.com/r/\<close> stands (in either case of its letters) before at least one character
  of the class; the group is the longest run of such characters there.
\<close>

definition upperOf :: "char \<Rightarrow> char" where
  "upperOf c = (if c = CHR ''r'' then CHR ''R'' else if c = CHR ''e'' then CHR ''E''
     else if c = CHR ''d'' then CHR ''D'' else if c = CHR ''i'' then CHR ''I''
     else if c = CHR ''t'' then CHR ''T'' else if c = CHR ''c'' then CHR ''C''
     else if c = CHR ''o'' then CHR ''O'' else if c = CHR ''m'' then CHR ''M'' else c)"

fun startsWithCI :: "string \<Rightarrow> string \<Rightarrow> bool" where
  "startsWithCI s [] = True"
| "startsWithCI [] (p # ps) = False"
| "startsWithCI (c # cs) (p # ps) = ((c = p \<or> c = upperOf p) \<and> startsWithCI cs ps)"

definition isSubredditChar :: "char \<Rightarrow> bool" where
  "isSubredditChar c = (isDigit c \<or> c = CHR ''_'' \<or> c = CHR ''-''
     \<or> c \<in> set ''abcdefghijklmnopqrstuvwxyz'' \<or> c \<in> set ''ABCDEFGHIJKLMNOPQRSTUVWXYZ'')"

fun matchSubreddit :: "string \<Rightarrow> string option" where
  "matchSubreddit [] = None"
| "matchSubreddit (c # cs) =
     (if startsWithCI (c # cs) ''reddit.com/r/''
         \<and> takeWhile isSubredditChar (drop 13 (c # cs)) \<noteq> []
      then Some (takeWhile isSubredditChar (drop 13 (c # cs)))
      else matchSubreddit cs)"

text \<open>
  \<open>fetchRedditPublicApi\<close>: the markdown and the rate-limit flag. Only a formatted
  listing of more than 100 characters is cached.
\<close>

definition fetchRedditPublicApi ::
  "env \<Rightarrow> string \<Rightarrow> string \<Rightarrow> world \<Rightarrow> (string \<times> bool) \<times> world" where
  "fetchRedditPublicApi e subreddit cacheKey w =
     (let w1 = tick (ApiCall (''https://www.reddit.com/r/'' @ subreddit @ ''/hot.json?limit=5'')) w
      in case redditPublic e (clock w) subreddit of
           PubRateLimited \<Rightarrow> (([], True), w1)
         | PubNotOk st errorText \<Rightarrow>
             (if includesStr errorText ''rate limit'' \<or> includesStr errorText ''ratelimit''
              then (([], True), w1)
              else ((''Failed to fetch from Reddit Public API: '' @ showNat st, False), w1))
         | PubParseError \<Rightarrow> ((''Error parsing Reddit Public API response'', False), w1)
         | PubApiError m \<Rightarrow> ((''Reddit API error: '' @ m, False), w1)
         | PubListing md \<Rightarrow>
             ((md, False), if md \<noteq> [] \<and> 100 < length md then cachePut cacheKey md 3600 w1 else w1)
         | PubThrew m \<Rightarrow> ((''Error fetching Reddit public content: '' @ m, False), w1))"

text \<open>
  \<open>fetchRedditAuthenticatedApi\<close>, first the token (from the cache, or requested and
  cached for 3000 seconds), then the listing.
\<close>

definition redditAccessToken :: "env \<Rightarrow> world \<Rightarrow> (string + string) \<times> world" where
  "redditAccessToken e w =
     (let t = (case cacheGet w ''Reddit:OAuthToken'' of None \<Rightarrow> [] | Some v \<Rightarrow> v) in
      if t \<noteq> [] then (Inr t, w)
      else (let w1 = tick (ApiCall ''https://www.reddit.com/api/v1/access_token'') w
            in case redditToken e (clock w) of
                 TokNotOk st \<Rightarrow>
                   (Inl (''Failed to authenticate with Reddit: '' @ showNat st),
                    cacheDelete ''Reddit:OAuthToken'' w1)
               | TokParseError txt \<Rightarrow>
                   (Inl (''Failed to parse Reddit authentication response: '' @ take 100 txt), w1)
               | TokResponse t' txt \<Rightarrow>
                   (if t' = []
                    then (Inl (''Reddit did not provide an access token: '' @ take 100 txt), w1)
                    else (Inr t', cachePut ''Reddit:OAuthToken'' t' 3000 w1))
               | TokThrew m \<Rightarrow>
                   (Inl (''Error fetching Reddit authenticated content: '' @ m), w1)))"

definition fetchRedditAuthenticatedApi ::
  "env \<Rightarrow> string \<Rightarrow> string \<Rightarrow> world \<Rightarrow> string \<times> world" where
  "fetchRedditAuthenticatedApi e subreddit cacheKey w =
     (if \<not> redditCredentials e then (''Reddit API credentials not configured.'', w)
      else case redditAccessToken e w of
             (Inl message, w1) \<Rightarrow> (message, w1)
           | (Inr t, w1) \<Rightarrow>
               (let w2 = tick (ApiCall (''https://oauth.reddit.com/r/'' @ subreddit @ ''/hot?limit=5'')) w1
                in case redditAuth e (clock w1) subreddit of
                     AuthUnauthorized \<Rightarrow>
                       (''Reddit authentication failed. Token may have expired.'',
                        cacheDelete ''Reddit:OAuthToken'' w2)
                   | AuthNotOk st errorText \<Rightarrow>
                       (''Failed to fetch from Reddit API (authenticated): '' @ showNat st
                          @ '' - '' @ take 100 errorText, w2)
                   | AuthParseError txt \<Rightarrow>
                       (''Failed to parse Reddit API response: '' @ take 100 txt, w2)
                   | AuthApiError m \<Rightarrow> (''Reddit API error: '' @ m, w2)
                   | AuthListing md \<Rightarrow>
                       (md, if md \<noteq> [] \<and> 100 < length md then cachePut cacheKey md 3600 w2
                            else w2)
                   | AuthThrew m \<Rightarrow>
                       (''Error fetching Reddit authenticated content: '' @ m, w2)))"

definition hasErrorIndicators :: "string \<Rightarrow> bool" where
  "hasErrorIndicators authResultMd =
     (includesStr authResultMd ''Failed to'' \<or> includesStr authResultMd ''Error''
      \<or> includesStr authResultMd ''limit'' \<or> includesStr authResultMd ''failed''
      \<or> includesStr authResultMd ''not configured'' \<or> includesStr authResultMd ''authenticate'')"

definition handleRedditURL :: "env \<Rightarrow> string \<Rightarrow> world \<Rightarrow> result \<times> world" where
  "handleRedditURL e url w =
     (case matchSubreddit url of
        None \<Rightarrow>
          (\<lparr>res_url = url, res_md = ''Invalid Reddit URL format'', res_error = Some True,
            res_status = None, res_errorDetails = None\<rparr>, w)
      | Some subreddit \<Rightarrow>
          (let cacheKey = ''Reddit:'' @ url;
               cached = (case cacheGet w cacheKey of None \<Rightarrow> [] | Some v \<Rightarrow> v)
           in if cached \<noteq> []
              then (\<lparr>res_url = url, res_md = cached, res_error = None, res_status = None,
                     res_errorDetails = None\<rparr>, w)
              else (let ((md, isRateLimited), w1) = fetchRedditPublicApi e subreddit cacheKey w
                    in if \<not> isRateLimited \<and> md \<noteq> []
                       then (\<lparr>res_url = url, res_md = md, res_error = None, res_status = None,
                              res_errorDetails = None\<rparr>, w1)
                       else (let (authResultMd, w2) =
                                   fetchRedditAuthenticatedApi e subreddit cacheKey w1
                             in (\<lparr>res_url = url, res_md = authResultMd,
                                  res_error = Some (hasErrorIndicators authResultMd),
                                  res_status = None, res_errorDetails = None\<rparr>, w2)))))"

subsection \<open>The per-URL operation of \<open>getWebsiteMarkdown\<close>\<close>

text \<open>
  The rate-limit check at the head of the operation, skipped when the request's token is
  the backend's.
\<close>

definition rateLimited :: "env \<Rightarrow> world \<Rightarrow> bool \<times> world" where
  "rateLimited e w =
     (if token w \<noteq> BACKEND_SECURITY_TOKEN e
      then (\<not> rateLimitOk e (clock w), tick (RateLimitCheck (rateLimitOk e (clock w))) w)
      else (False, w))"

definition plainResult :: "string \<Rightarrow> string \<Rightarrow> result" where
  "plainResult url md = \<lparr>res_url = url, res_md = md, res_error = None, res_status = None,
     res_errorDetails = None\<rparr>"

text \<open>
  The default branch: the cache entry \<open>Default:{url}{-llm}\<close> is deleted when the URL
  asks for no cache and is read otherwise (an empty value counts as none); without a value
  the page is fetched, an answer starting with \<open>## Error\<close> becomes an error result, any
  other answer is filtered when the filter is on and stored for 3600 seconds.
\<close>

definition defaultBranch :: "env \<Rightarrow> string \<Rightarrow> world \<Rightarrow> (string + result) \<times> world" where
  "defaultBranch e url w =
     (let cacheIdBase = url @ (if llmFilter w then ''-llm'' else []) in
      case urlHasNocache e url of
        Inl message \<Rightarrow> (Inl message, w)
      | Inr hasNocache \<Rightarrow>
          (let shouldSkipCache = (hasNocache \<or> includesStr url ''nocache=true'');
               cacheKey = ''Default:'' @ cacheIdBase;
               w1 = (if shouldSkipCache then cacheDelete cacheKey w else w);
               cachedData = (if shouldSkipCache then []
                             else case cacheGet w cacheKey of None \<Rightarrow> [] | Some v \<Rightarrow> v)
           in if cachedData \<noteq> [] then (Inr (plainResult url cachedData), w1)
              else (let md = handleDefaultPage e (clock w1) url;
                        w2 = tick (PageFetch url) w1
                    in if startsWith md ''## Error''
                       then (Inr \<lparr>res_url = url, res_md = md, res_error = Some True,
                                  res_status = Some (if includesStr md ''Timeout'' then 504 else 500),
                                  res_errorDetails = Some md\<rparr>, w2)
                       else if llmFilter w
                       then (let md' = applyLlmFilter e (clock w2) md;
                                 w3 = tick LlmFilterCall w2
                             in (Inr (plainResult url md'), cachePut cacheKey md' 3600 w3))
                       else (Inr (plainResult url md), cachePut cacheKey md 3600 w2))))"

text \<open>
  The body of the \<open>try\<close> of the operation; \<open>Inl\<close> is an exception on its way to the
  \<open>catch\<close>.
\<close>

definition processUrlBody :: "env \<Rightarrow> string \<Rightarrow> world \<Rightarrow> (string + result) \<times> world" where
  "processUrlBody e url w =
     (let (limited, w0) = rateLimited e w in
      if limited
      then (Inr \<lparr>res_url = url, res_md = ''Rate limit exceeded'', res_error = Some True,
                 res_status = Some 429, res_errorDetails = None\<rparr>, w0)
      else if isYouTubeUrl url
      then (let w1 = tick (HandlerCall YouTube url) (logEvent (Routed url YouTube) w0)
            in case getYouTubeMetadata e (clock w0) url of
                 Inl message \<Rightarrow> (Inl message, w1)
               | Inr md \<Rightarrow> (Inr (plainResult url md), w1))
      else if isTwitterUrl url
      then (if \<not> isLikelyStatus url \<and> 3 < length (urlParts url)
            then (let w1 = tick (HandlerCall TwitterProfile url)
                             (logEvent (Routed url TwitterProfile) w0)
                  in case handleTwitterProfilePage e (clock w0) url of
                       Inl message \<Rightarrow> (Inl message, w1)
                     | Inr (md, err) \<Rightarrow>
                         (Inr \<lparr>res_url = url, res_md = md, res_error = err, res_status = None,
                               res_errorDetails = None\<rparr>, w1))
            else if isLikelyStatus url
            then (let w1 = tick (HandlerCall TwitterTweet url)
                             (logEvent (Routed url TwitterTweet) w0)
                  in case handleTwitterTweetPage e (clock w0) url of
                       Inl message \<Rightarrow> (Inl message, w1)
                     | Inr (md, err) \<Rightarrow>
                         (Inr \<lparr>res_url = url, res_md = md, res_error = err, res_status = None,
                               res_errorDetails = None\<rparr>, w1))
            else (let w1 = tick (PageFetch url) (logEvent (Routed url TwitterFallback) w0)
                  in (Inr \<lparr>res_url = url, res_md = handleDefaultPage e (clock w0) url,
                            res_error = Some False, res_status = None,
                            res_errorDetails = None\<rparr>, w1)))
      else if isRedditUrl url
      then (let (r, w1) = handleRedditURL e url (logEvent (Routed url Reddit) w0)
            in (Inr r, w1))
      else defaultBranch e url (logEvent (Routed url DefaultPage) w0))"

text \<open>The \<open>catch\<close> of the operation turns an exception into a result of its own.\<close>

definition processUrl :: "env \<Rightarrow> string \<Rightarrow> world \<Rightarrow> result \<times> world" where
  "processUrl e url w =
     (case processUrlBody e url w of
        (Inr r, w') \<Rightarrow> (r, w')
      | (Inl message, w') \<Rightarrow>
          (\<lparr>res_url = url, res_md = ''Failed to process page due to unexpected error'',
            res_error = Some True, res_status = Some 500, res_errorDetails = Some message\<rparr>, w'))"

text \<open>The routing decisions logged so far, the newest first.\<close>

fun routedOf :: "event \<Rightarrow> (string \<times> strategy) option" where
  "routedOf (Routed url s) = Some (url, s)"
| "routedOf ev = None"

definition routedLog :: "world \<Rightarrow> (string \<times> strategy) list" where
  "routedLog w = List.map_filter routedOf (trace w)"

text \<open>The URLs fetched by \<open>handleDefaultPage\<close> so far, the newest first.\<close>

fun pageFetchOf :: "event \<Rightarrow> string option" where
  "pageFetchOf (PageFetch url) = Some url"
| "pageFetchOf ev = None"

definition pageFetches :: "world \<Rightarrow> string list" where
  "pageFetches w = List.map_filter pageFetchOf (trace w)"

text \<open>The keys deleted from the cache so far, the newest first.\<close>

fun cacheDeleteOf :: "event \<Rightarrow> string option" where
  "cacheDeleteOf (CacheDelete key) = Some key"
| "cacheDeleteOf ev = None"

definition cacheDeletes :: "world \<Rightarrow> string list" where
  "cacheDeletes w = List.map_filter cacheDeleteOf (trace w)"

text \<open>
  The specification's terminal path segment, for comparison with \<open>lastPart\<close>: the path
  of a URL ends where its query (\<open>?\<close>) or fragment (\<open>#\<close>) starts, and the segment is
  what follows the last \<open>/\<close> of the path.
\<close>

definition specLastPathSegment :: "string \<Rightarrow> string" where
  "specLastPathSegment url =
     last (splitStr (takeWhile (\<lambda>c. c \<noteq> CHR ''?'' \<and> c \<noteq> CHR ''#'') url) ''/'')"

section \<open>The fan-out, the single page, the crawl and \<open>fetch\<close>\<close>

text \<open>
  \<open>Promise.all(urls.map(async url => ...))\<close>: the operations are started for all URLs
  and complete in some order; the result of the operation at index \<open>i\<close> is stored at
  index \<open>i\<close>. Each operation is taken as one step, and \<open>picks\<close> chooses which of the
  pending operations completes next (the \<open>k\<close>-th pending one, \<open>k\<close> being the pick modulo
  the number pending), so every order of completion is some \<open>picks\<close>.
\<close>

fun runPending ::
  "env \<Rightarrow> nat list \<Rightarrow> nat \<Rightarrow> (nat \<times> string) list \<Rightarrow> result option list \<Rightarrow> world
     \<Rightarrow> result option list \<times> world" where
  "runPending e picks 0 pending settled w = (settled, w)"
| "runPending e picks (Suc n) pending settled w =
     (if pending = [] then (settled, w)
      else (let k = (case picks of [] \<Rightarrow> 0 | p # ps \<Rightarrow> p mod length pending);
                (i, url) = pending ! k;
                (r, w') = processUrl e url w
            in runPending e (tl picks) n (take k pending @ drop (Suc k) pending)
                 (settled[i := Some r]) w'))"

definition promiseAll :: "env \<Rightarrow> nat list \<Rightarrow> string list \<Rightarrow> world \<Rightarrow> result list \<times> world" where
  "promiseAll e picks urls w =
     (let (settled, w') = runPending e picks (length urls) (zip [0..<length urls] urls)
                            (replicate (length urls) None) w
      in (map the settled, w'))"

definition getWebsiteMarkdown ::
  "env \<Rightarrow> nat list \<Rightarrow> string list \<Rightarrow> world \<Rightarrow> result list \<times> world" where
  "getWebsiteMarkdown e picks urls w =
     (let (isBrowserActive, w1) = ensureBrowser e w in
      if \<not> isBrowserActive
      then (map (\<lambda>url. \<lparr>res_url = url, res_md = ''[Browser] Could not start browser instance'',
                         res_error = Some True, res_status = Some 500,
                         res_errorDetails = None\<rparr>) urls, w1)
      else promiseAll e picks urls w1)"

text \<open>
  A response: the status, the \<open>Content-Type\<close> header and the body. A JSON body is kept
  as the value that \<open>JSON.stringify\<close> is applied to.
\<close>

datatype body =
    JsonObject "(string \<times> string) list"
  | JsonResults "result list"
  | PlainText string
  | HelpPage

datatype response = Response nat string body

text \<open>\<open>result.error\<close> as a condition: true only for the flag \<open>true\<close>.\<close>

definition isError :: "result \<Rightarrow> bool" where
  "isError r = (res_error r = Some True)"

definition annotate :: "env \<Rightarrow> world \<Rightarrow> result \<Rightarrow> result" where
  "annotate e w r =
     (if \<not> isError r
      then r\<lparr>res_md := convertToMagiFormat (magi e (clock w)) (res_url r) (res_md r)\<rparr>
      else r)"

text \<open>
  The answer of \<open>processSinglePage\<close> for the one result and the state after the
  conversion: the status is the result's own (500 when it has none) for an error and 200
  otherwise, and 429 for the rate-limit sentinel; a JSON answer is the array of the
  result, annotated when it is not an error; a text answer is the annotated document, or
  a JSON error object for an error.
\<close>

definition singlePageResponse :: "env \<Rightarrow> string \<Rightarrow> bool \<Rightarrow> result \<Rightarrow> world \<Rightarrow> response" where
  "singlePageResponse e url json r w1 =
     (let status = (if isError r
                    then (case res_status r of None \<Rightarrow> 500 | Some s \<Rightarrow> if s = 0 then 500 else s)
                    else 200);
          status = (if res_md r = ''Rate limit exceeded'' then 429 else status)
      in if json
         then Response status ''application/json''
                (JsonResults [if \<not> isError r
                              then r\<lparr>res_md := convertToMagiFormat (magi e (clock w1)) url (res_md r)\<rparr>
                              else r])
         else if isError r
         then Response status ''application/json''
                (JsonObject [(''error'', res_md r),
                             (''message'', (case res_errorDetails r of
                                              None \<Rightarrow> ''Error processing page''
                                            | Some d \<Rightarrow> if d = [] then ''Error processing page''
                                                         else d)),
                             (''url'', url)])
         else Response status ''text/plain;charset=UTF-8''
                (PlainText (convertToMagiFormat (magi e (clock w1)) url (res_md r))))"

definition processSinglePage ::
  "env \<Rightarrow> nat list \<Rightarrow> string \<Rightarrow> bool \<Rightarrow> world \<Rightarrow> response \<times> world" where
  "processSinglePage e picks url json w =
     (let (results, w1) = getWebsiteMarkdown e picks [url] w
      in (singlePageResponse e url json (hd results) w1, w1))"

subsection \<open>The crawl\<close>

text \<open>\<open>Array.from(new Set(links))\<close>: the first occurrence of each link, in order.\<close>

definition uniqueInOrder :: "string list \<Rightarrow> string list" where
  "uniqueInOrder links = rev (remdups (rev links))"

text \<open>
  The filter pass of the crawl over the results: a result without error flag whose
  markdown does not start with \<open>## Error\<close> is filtered.
\<close>

fun filterResults :: "env \<Rightarrow> result list \<Rightarrow> world \<Rightarrow> result list \<times> world" where
  "filterResults e [] w = ([], w)"
| "filterResults e (r # rs) w =
     (if \<not> isError r \<and> \<not> startsWith (res_md r) ''## Error''
      then (let r' = r\<lparr>res_md := applyLlmFilter e (clock w) (res_md r)\<rparr>;
                (rs', w') = filterResults e rs (tick LlmFilterCall w)
            in (r' # rs', w'))
      else (let (rs', w') = filterResults e rs w in (r # rs', w')))"

text \<open>
  The text answer of a crawl. The main result is the first one for the base URL, or the
  first result; the results for other URLs are the subpages. With at least one subpage
  the marker follows, and every subpage without error flag gets a section: the content is
  the second piece of the document split at \<open>---\n\n\<close> (the whole document when there is
  none or it is empty), the title the first match of the heading pattern in it, and the
  first occurrence of the matched text is removed from the content.
\<close>

definition subpageSection :: "result \<Rightarrow> string" where
  "subpageSection subpage =
     (let pieces = splitStr (res_md subpage) [CHR ''-'', CHR ''-'', CHR ''-'', CHR 0x0A, CHR 0x0A];
          subpageContent = (if 1 < length pieces \<and> pieces ! 1 \<noteq> [] then pieces ! 1
                            else res_md subpage);
          titleMatch = matchTitle subpageContent;
          title = (case titleMatch of Some t \<Rightarrow> t | None \<Rightarrow> ''Untitled Subpage'');
          content = (case titleMatch of Some t \<Rightarrow> removeFirst subpageContent (''# '' @ t)
                                      | None \<Rightarrow> subpageContent)
      in [CHR 0x0A, CHR 0x0A] @ ''### '' @ title @ '' [URL]('' @ res_url subpage @ '')''
           @ [CHR 0x0A, CHR 0x0A] @ trim content)"

definition combinedDocument :: "string \<Rightarrow> result list \<Rightarrow> string" where
  "combinedDocument baseUrl magiResults =
     (let mainResult = (case filter (\<lambda>r. res_url r = baseUrl) magiResults of
                          [] \<Rightarrow> hd magiResults | r # rs \<Rightarrow> r);
          subpageResults = filter (\<lambda>r. res_url r \<noteq> baseUrl) magiResults
      in if 0 < length subpageResults
         then res_md mainResult @ [CHR 0x0A, CHR 0x0A] @ ''## Related Subpages'' @ [CHR 0x0A]
                @ concat (map subpageSection (filter (\<lambda>r. \<not> isError r) subpageResults))
         else res_md mainResult)"

definition crawlSubpages ::
  "env \<Rightarrow> nat list \<Rightarrow> string \<Rightarrow> bool \<Rightarrow> world \<Rightarrow> response \<times> world" where
  "crawlSubpages e picks baseUrl json w =
     (let failure = (\<lambda>message w'.
            if json
            then (Response 500 ''application/json''
                    (JsonObject [(''error'', ''Failed to crawl subpages''), (''message'', message),
                                 (''url'', baseUrl)]), w')
            else (Response 500 ''text/plain;charset=UTF-8''
                    (PlainText (''Error processing '' @ baseUrl @ '': '' @ message)), w'))
      in if browser w = None then failure ''Browser instance not initialized'' w
         else case pageLinks e (clock w) baseUrl of
                Inl message \<Rightarrow> failure message (tick (LinkExtraction baseUrl) w)
              | Inr links \<Rightarrow>
                  (let w1 = tick (LinkExtraction baseUrl) w;
                       uniqueLinks = take 10 (uniqueInOrder links);
                       allUrls = baseUrl # uniqueLinks;
                       (results, w2) = getWebsiteMarkdown e picks allUrls w1;
                       (results, w3) = (if llmFilter w then filterResults e results w2
                                        else (results, w2));
                       magiResults = map (annotate e w3) results;
                       status = (if list_ex (\<lambda>item. isError item \<and> res_md item = ''Rate limit exceeded'')
                                      magiResults then 429 else 200)
                   in if json then (Response status ''application/json'' (JsonResults magiResults), w3)
                      else (Response status ''text/plain;charset=UTF-8''
                              (PlainText (combinedDocument baseUrl magiResults)), w3)))"

subsection \<open>The request handler \<open>fetch\<close>\<close>

text \<open>
  A request, with its query parameters and headers read: the method, \<open>url\<close> (\<open>None\<close>
  when absent), whether \<open>subpages\<close>, \<open>nocache\<close> and \<open>llmFilter\<close> are \<open>true\<close>, whether
  the content type is \<open>application/json\<close>, and the bearer token.
\<close>

record request =
  req_method :: string
  req_url :: "string option"
  req_subpages :: bool
  req_nocache :: bool
  req_json :: bool
  req_token :: string
  req_llmFilter :: bool

text \<open>\<open>isValidUrl\<close>: the test of \<open>/^(http|https):\/\/[^ " ]+$/\<close>.\<close>

definition isValidUrl :: "string \<Rightarrow> bool" where
  "isValidUrl url =
     (let rest = (if startsWith url ''http://'' then Some (drop 7 url)
                  else if startsWith url ''https://'' then Some (drop 8 url) else None)
      in case rest of
           None \<Rightarrow> False
         | Some r \<Rightarrow> r \<noteq> [] \<and> list_all (\<lambda>c. c \<noteq> CHR 0x20 \<and> c \<noteq> CHR 0x22) r)"

text \<open>
  The URL that \<open>fetch\<close> goes on with: the parameter (the empty string standing for an
  absent one), with \<open>nocache=true\<close> set in its query when the request asks for no cache
  (unchanged when it is not a URL).
\<close>

definition requestedUrl :: "env \<Rightarrow> request \<Rightarrow> string" where
  "requestedUrl e req =
     (let url = (case req_url req of None \<Rightarrow> [] | Some u \<Rightarrow> u)
      in if url \<noteq> [] \<and> req_nocache req
         then (case urlSetNocache e url of Inl message \<Rightarrow> url | Inr u \<Rightarrow> u)
         else url)"

text \<open>The body of the \<open>try\<close> of \<open>fetch\<close>.\<close>

definition fetchBody :: "env \<Rightarrow> nat list \<Rightarrow> request \<Rightarrow> world \<Rightarrow> response \<times> world" where
  "fetchBody e picks req w =
     (if req_method req \<noteq> ''GET''
      then (Response 405 ''application/json'' (JsonObject [(''error'', ''Method Not Allowed'')]), w)
      else (let w0 = w\<lparr>token := req_token req, llmFilter := req_llmFilter req\<rparr>;
                url = requestedUrl e req
            in if url = [] then (Response 200 ''text/html;charset=UTF-8'' HelpPage, w0)
               else if \<not> isValidUrl url
               then (Response 400 ''application/json''
                       (JsonObject [(''error'',
                          ''Invalid URL provided, should be a full URL starting with http:// or https://'')]),
                     w0)
               else (let (ensured, w1) = ensureBrowser e w0 in
                     if \<not> ensured
                     then (Response 500 ''application/json''
                             (JsonObject [(''error'',
                                ''Could not start or connect to browser instance'')]), w1)
                     else if req_subpages req then crawlSubpages e picks url (req_json req) w1
                     else processSinglePage e picks url (req_json req) w1)))"

text \<open>
  \<open>fetch\<close>: the body, and the \<open>finally\<close> that resets the counter and makes sure an alarm
  is set.
\<close>

definition fetch :: "env \<Rightarrow> nat list \<Rightarrow> request \<Rightarrow> world \<Rightarrow> response \<times> world" where
  "fetch e picks req w =
     (let (resp, w1) = fetchBody e picks req w
      in (resp, ensureAlarmIsSet e (w1\<lparr>keptAliveInSeconds := 0\<rparr>)))"

section \<open>Example environments\<close>

text \<open>
  An outside world in which everything works: launches and probes succeed, the storage
  never throws, the limiter admits, pages are a heading and a paragraph, the filter keeps
  its input, and the URL class treats a URL without a query as it is written. The
  keep-alive threshold is taken as 60 seconds.
\<close>

definition exampleEnv :: env where
  "exampleEnv = \<lparr>
     KEEP_BROWSER_ALIVE_IN_SECONDS = 60,
     BACKEND_SECURITY_TOKEN = ''secret'',
     launchOk = (\<lambda>t. True),
     probeOk = (\<lambda>t. True),
     sessionsAt = (\<lambda>t. Some []),
     closeOk = (\<lambda>t. True),
     setAlarmOk = (\<lambda>t. True),
     storagePutOk = (\<lambda>t. True),
     rateLimitOk = (\<lambda>t. True),
     urlHasNocache = (\<lambda>url. Inr (includesStr url ''?nocache='' \<or> includesStr url ''&nocache='')),
     urlSetNocache = (\<lambda>url. Inr (url @ ''?nocache=true'')),
     handleDefaultPage = (\<lambda>t url. ''# page'' @ [CHR 0x0A, CHR 0x0A] @ ''fresh content''),
     applyLlmFilter = (\<lambda>t md. md),
     getYouTubeMetadata = (\<lambda>t url. Inr ''# YouTube Video''),
     handleTwitterProfilePage = (\<lambda>t url. Inr (''# profile'', None)),
     handleTwitterTweetPage = (\<lambda>t url. Inr (''## Tweet'', None)),
     redditCredentials = True,
     redditPublic = (\<lambda>t subreddit. PubRateLimited),
     redditToken = (\<lambda>t. TokResponse ''token'' ''{}''),
     redditAuth = (\<lambda>t subreddit. AuthListing []),
     pageLinks = (\<lambda>t url. Inr []),
     magi = (\<lambda>t. exampleMagiEnv)\<rparr>"

text \<open>A freshly constructed object: nothing stored, no alarm, no browser, an empty cache.\<close>

definition freshWorld :: world where
  "freshWorld = \<lparr>keptAliveInSeconds = 0, storedKeptAlive = None, alarmSet = False,
     browser = None, token = [], llmFilter = False, cache = Map.empty, trace = [], clock = 0\<rparr>"

definition getRequest :: "string option \<Rightarrow> request" where
  "getRequest u = \<lparr>req_method = ''GET'', req_url = u, req_subpages = False, req_nocache = False,
     req_json = True, req_token = ''secret'', req_llmFilter = False\<rparr>"

text \<open>An outside world in which no launch succeeds and two sessions are orphaned.\<close>

definition failingEnv :: env where
  "failingEnv = exampleEnv\<lparr>launchOk := (\<lambda>t. False),
     sessionsAt := (\<lambda>t. Some [(''s1'', False), (''s2'', True)])\<rparr>"

text \<open>
  An object without a browser whose counter has reached 50 with the alarm set, and one with
  a browser, the alarm set and the counter at 0.
\<close>

definition idleWorld :: world where
  "idleWorld = freshWorld\<lparr>keptAliveInSeconds := 50, storedKeptAlive := Some 50, alarmSet := True\<rparr>"

definition warmWorld :: world where
  "warmWorld = freshWorld\<lparr>alarmSet := True, browser := Some 0\<rparr>"

text \<open>
  A request with the backend's token already read into the object, and two caches: one
  with a stale entry for a page, one with an empty value for it.
\<close>

definition authorizedWorld :: world where
  "authorizedWorld = freshWorld\<lparr>token := ''secret''\<rparr>"

definition staleWorld :: world where
  "staleWorld = authorizedWorld\<lparr>cache := [''Default:https://example.com/'' \<mapsto> (''# stale'', 3600)]\<rparr>"

definition emptyEntryWorld :: world where
  "emptyEntryWorld = authorizedWorld\<lparr>cache := [''Default:https://example.com/'' \<mapsto> ([], 3600)]\<rparr>"

text \<open>An outside world in which every page times out.\<close>

definition timeoutEnv :: env where
  "timeoutEnv = exampleEnv\<lparr>handleDefaultPage := (\<lambda>t url. ''## Error: Navigation Timeout'')\<rparr>"

text \<open>
  An outside world in which the forum's public API is rate limited and the authenticated
  API answers with a listing, shaped as \<open>formatRedditData\<close> shapes it, of one post whose
  title contains the word \<open>limit\<close>.
\<close>

definition limitListing :: string where
  "limitListing = ''# Subreddit: r/news'' @ [CHR 0x0A, CHR 0x0A]
     @ ''## Speed limit raised on the ring road'' @ [CHR 0x0A, CHR 0x0A]
     @ ''- **Author:** u/alice'' @ [CHR 0x0A]
     @ ''- **Score:** 10'' @ [CHR 0x0A]
     @ ''- **Comments:** 2'' @ [CHR 0x0A, CHR 0x0A]
     @ ''---'' @ [CHR 0x0A, CHR 0x0A, CHR 0x0A]
     @ ''Source: [https://www.reddit.com/r/news](https://www.reddit.com/r/news)''"

definition redditEnv :: env where
  "redditEnv = exampleEnv\<lparr>redditAuth := (\<lambda>t subreddit. AuthListing limitListing)\<rparr>"

text \<open>A request for a page that asks for no cache.\<close>

definition bypassRequest :: "string \<Rightarrow> request" where
  "bypassRequest u = (getRequest (Some u))\<lparr>req_nocache := True\<rparr>"

text \<open>
  Two states with the same data: the cache, the token, the filter flag, and the logs of
  routing decisions, page fetches and cache deletions.
\<close>

definition sameData :: "world \<Rightarrow> world \<Rightarrow> bool" where
  "sameData w w' = (cache w' = cache w \<and> token w' = token w \<and> llmFilter w' = llmFilter w
     \<and> pageFetches w' = pageFetches w \<and> cacheDeletes w' = cacheDeletes w
     \<and> routedLog w' = routedLog w)"


section \<open>Properties of the metadata synthesis\<close>

lemma length_splitWsAcc:
  "length (splitWsAcc True cur s)
     = countWordsFrom False s + (if s = [] \<or> isWs (last s) then 1 else 0)"
  "length (splitWsAcc False cur s)
     = countWordsFrom True s + 1 + (if s \<noteq> [] \<and> isWs (last s) then 1 else 0)"
  by (induction s arbitrary: cur) auto

lemma countWordsFrom_False:
  "countWordsFrom False s
     = countWordsFrom True s + (if s \<noteq> [] \<and> \<not> isWs (hd s) then 1 else 0)"
  by (cases s) auto

lemma wordCount_pieces:
  "wordCount s = specWordCount s + (if s = [] \<or> isWs (hd s) then 1 else 0)
      + (if s \<noteq> [] \<and> isWs (last s) then 1 else 0)"
  unfolding wordCount_def splitWhitespace_def specWordCount_def
  by (simp add: length_splitWsAcc(2) countWordsFrom_False)

lemma mathRoundDiv_200: "mathRoundDiv n 200 = (n + 100) div 200"
proof -
  have "2 * n + 200 = 2 * (n + 100)" by simp
  then have "mathRoundDiv n 200 = (2 * (n + 100)) div (2 * 200)"
    unfolding mathRoundDiv_def by (simp only:)
  also have "\<dots> = (n + 100) div 200"
    by (rule div_mult_mult1) simp
  finally show ?thesis .
qed

text \<open>
  C8, as stated, fails: a body of 201 words separated by single spaces has a reading time
  of 1 minute in the source (\<open>Math.round (201 / 200) = 1\<close>), where the quotient rounded up
  is 2.
\<close>

theorem readingTime_not_ceiling_counterexample:
  "specWordCount (concat (replicate 200 ''a '') @ ''a'') = 201
   \<and> readingTimeMinutes (concat (replicate 200 ''a '') @ ''a'') = 1
   \<and> specReadingTime (concat (replicate 200 ''a '') @ ''a'') = 2"
  by code_simp

text \<open>
  C8, amended: for every markdown body the reading time is the quotient of the piece count
  by 200 rounded to the nearest integer (a half upwards), at least 1, where the piece
  count of \<open>split(/\s+/)\<close> is the number of whitespace-separated words, plus one when the
  body is empty or starts with whitespace, plus one when it ends with whitespace.
\<close>

theorem readingTimeMinutes_rounds_to_nearest:
  "readingTimeMinutes md
     = max 1 ((specWordCount md + (if md = [] \<or> isWs (hd md) then 1 else 0)
                + (if md \<noteq> [] \<and> isWs (last md) then 1 else 0) + 100) div 200)"
  unfolding readingTimeMinutes_def by (simp add: wordCount_pieces mathRoundDiv_200)

lemma convertToMagiFormat_appended:
  "convertToMagiFormat env url md
     = joinWith [CHR 0x0A] (yamlLines env url md) @ md @ appendedAfterBody env url md"
  by (simp add: appendedAfterBody_def convertToMagiFormat_def Let_def)

text \<open>
  C9: the document is the front matter, the body, and then the directive blocks gated by
  the body's length: nothing up to 1000 characters, the summarization block alone above
  1000 and up to 3000, and the summarization block followed by the entity-extraction
  block above 3000. So a body of 1200 characters gets exactly one block and a body of
  3500 characters exactly two.
\<close>

theorem directive_blocks_gated_by_length:
  fixes env :: magiEnv
  defines "front url md \<equiv> joinWith [CHR 0x0A] (yamlLines env url md)"
  shows "convertToMagiFormat env url md = front url md @ md @ appendedAfterBody env url md
    \<and> (length md \<le> 1000 \<longrightarrow> appendedAfterBody env url md = [])
    \<and> (1000 < length md \<and> length md \<le> 3000 \<longrightarrow>
         appendedAfterBody env url md = summaryScript (dateNowSummary env))
    \<and> (3000 < length md \<longrightarrow>
         appendedAfterBody env url md
           = summaryScript (dateNowSummary env) @ [CHR 0x0A] @ entityScript (dateNowEntity env))
    \<and> (length md = 1200 \<longrightarrow>
         appendedAfterBody env url md = summaryScript (dateNowSummary env))
    \<and> (length md = 3500 \<longrightarrow>
         appendedAfterBody env url md
           = summaryScript (dateNowSummary env) @ [CHR 0x0A] @ entityScript (dateNowEntity env))"
proof -
  have short: "length md \<le> 1000 \<Longrightarrow> appendedAfterBody env url md = []"
    by (simp add: appendedAfterBody_def convertToMagiFormat_def Let_def)
  have mid: "1000 < length md \<Longrightarrow> length md \<le> 3000 \<Longrightarrow>
      appendedAfterBody env url md = summaryScript (dateNowSummary env)"
    by (simp add: appendedAfterBody_def convertToMagiFormat_def Let_def)
  have long: "3000 < length md \<Longrightarrow> appendedAfterBody env url md
      = summaryScript (dateNowSummary env) @ [CHR 0x0A] @ entityScript (dateNowEntity env)"
    by (simp add: appendedAfterBody_def convertToMagiFormat_def Let_def)
  have whole: "convertToMagiFormat env url md
      = front url md @ md @ appendedAfterBody env url md"
    unfolding front_def by (rule convertToMagiFormat_appended)
  from short mid long whole show ?thesis by force
qed

theorem directive_blocks_gated_by_length_witness:
  "length (replicate 1200 CHR ''a'') = 1200
   \<and> appendedAfterBody exampleMagiEnv ''https://example.com/'' (replicate 1200 CHR ''a'')
        = summaryScript (dateNowSummary exampleMagiEnv)
   \<and> length (replicate 3500 CHR ''a'') = 3500
   \<and> appendedAfterBody exampleMagiEnv ''https://example.com/'' (replicate 3500 CHR ''a'')
        = summaryScript (dateNowSummary exampleMagiEnv) @ [CHR 0x0A]
            @ entityScript (dateNowEntity exampleMagiEnv)
   \<and> length (replicate 1000 CHR ''a'') \<le> 1000
   \<and> appendedAfterBody exampleMagiEnv ''https://example.com/'' (replicate 1000 CHR ''a'') = []"
proof -
  have a: "length (replicate 1200 CHR ''a'') = 1200"
    and b: "length (replicate 3500 CHR ''a'') = 3500"
    and c: "length (replicate 1000 CHR ''a'') \<le> 1000" by simp_all
  from a b c
    directive_blocks_gated_by_length
      [of exampleMagiEnv "''https://example.com/''" "replicate 1200 CHR ''a''"]
    directive_blocks_gated_by_length
      [of exampleMagiEnv "''https://example.com/''" "replicate 3500 CHR ''a''"]
    directive_blocks_gated_by_length
      [of exampleMagiEnv "''https://example.com/''" "replicate 1000 CHR ''a''"]
  show ?thesis by blast
qed

section \<open>The example environments, field by field\<close>

lemma exampleEnv_fields:
  "KEEP_BROWSER_ALIVE_IN_SECONDS exampleEnv = 60"
  "BACKEND_SECURITY_TOKEN exampleEnv = ''secret''"
  "launchOk exampleEnv t = True"
  "probeOk exampleEnv t = True"
  "sessionsAt exampleEnv t = Some []"
  "closeOk exampleEnv t = True"
  "setAlarmOk exampleEnv t = True"
  "storagePutOk exampleEnv t = True"
  "rateLimitOk exampleEnv t = True"
  "urlHasNocache exampleEnv url = Inr (includesStr url ''?nocache='' \<or> includesStr url ''&nocache='')"
  "urlSetNocache exampleEnv url = Inr (url @ ''?nocache=true'')"
  "handleDefaultPage exampleEnv t url = ''# page'' @ [CHR 0x0A, CHR 0x0A] @ ''fresh content''"
  "applyLlmFilter exampleEnv t md = md"
  "getYouTubeMetadata exampleEnv t url = Inr ''# YouTube Video''"
  "handleTwitterProfilePage exampleEnv t url = Inr (''# profile'', None)"
  "handleTwitterTweetPage exampleEnv t url = Inr (''## Tweet'', None)"
  "redditCredentials exampleEnv = True"
  "redditPublic exampleEnv t subreddit = PubRateLimited"
  "redditToken exampleEnv t = TokResponse ''token'' ''{}''"
  "redditAuth exampleEnv t subreddit = AuthListing []"
  "pageLinks exampleEnv t url = Inr []"
  "magi exampleEnv t = exampleMagiEnv"
  by (simp_all add: exampleEnv_def)

lemma freshWorld_fields:
  "keptAliveInSeconds freshWorld = 0" "storedKeptAlive freshWorld = None"
  "alarmSet freshWorld = False" "browser freshWorld = None" "token freshWorld = []"
  "llmFilter freshWorld = False" "cache freshWorld = Map.empty" "trace freshWorld = []"
  "clock freshWorld = 0"
  by (simp_all add: freshWorld_def)

lemma authorizedWorld_fields:
  "browser authorizedWorld = None" "token authorizedWorld = ''secret''"
  "llmFilter authorizedWorld = False" "cache authorizedWorld = Map.empty"
  "trace authorizedWorld = []" "clock authorizedWorld = 0"
  by (simp_all add: authorizedWorld_def freshWorld_def)

lemma emptyEntryWorld_fields:
  "token emptyEntryWorld = ''secret''" "llmFilter emptyEntryWorld = False"
  "cache emptyEntryWorld = [''Default:https://example.com/'' \<mapsto> ([], 3600)]"
  "trace emptyEntryWorld = []" "clock emptyEntryWorld = 0"
  by (simp_all add: emptyEntryWorld_def authorizedWorld_def freshWorld_def)

lemma rateLimited_authorized:
  "token w = BACKEND_SECURITY_TOKEN e \<Longrightarrow> rateLimited e w = (False, w)"
  by (simp add: rateLimited_def)

lemma staleWorld_fields:
  "token staleWorld = ''secret''" "llmFilter staleWorld = False"
  "cache staleWorld = [''Default:https://example.com/'' \<mapsto> (''# stale'', 3600)]"
  "trace staleWorld = []" "clock staleWorld = 0" "browser staleWorld = None"
  by (simp_all add: staleWorld_def authorizedWorld_def freshWorld_def)

lemma timeoutEnv_fields:
  "BACKEND_SECURITY_TOKEN timeoutEnv = ''secret''"
  "urlHasNocache timeoutEnv url = Inr (includesStr url ''?nocache='' \<or> includesStr url ''&nocache='')"
  "handleDefaultPage timeoutEnv t url = ''## Error: Navigation Timeout''"
  by (simp_all add: timeoutEnv_def exampleEnv_def)

section \<open>The resource handle and the idle lifecycle\<close>

lemma trace_closeSessions:
  "trace (closeSessions ss w) = rev (map (\<lambda>(sid, ok). CloseSession sid ok) ss) @ trace w"
  by (induction ss w rule: closeSessions.induct) (simp_all add: tick_def)

lemma browser_closeSessions [simp]: "browser (closeSessions ss w) = browser w"
  by (induction ss w rule: closeSessions.induct) (simp_all add: tick_def)

lemma filter_closeSession_events [simp]:
  "filter isLaunch (map (\<lambda>(sid, ok). CloseSession sid ok) ss) = []"
  "filter isListSessions (map (\<lambda>(sid, ok). CloseSession sid ok) ss) = []"
  "filter isLaunch (rev (map (\<lambda>(sid, ok). CloseSession sid ok) ss)) = []"
  "filter isListSessions (rev (map (\<lambda>(sid, ok). CloseSession sid ok) ss)) = []"
  by (induction ss) auto

lemma cleanupSessions_counts [simp]:
  "launchAttempts (cleanupSessions e w) = launchAttempts w"
  "sessionListings (cleanupSessions e w) = Suc (sessionListings w)"
  "browser (cleanupSessions e w) = browser w"
  by (auto simp: cleanupSessions_def launchAttempts_def sessionListings_def tick_def
      trace_closeSessions split: option.splits)

lemma isBrowserConnected_effect:
  "isBrowserConnected e w = (c, w1) \<Longrightarrow>
     launchAttempts w1 = launchAttempts w \<and> sessionListings w1 = sessionListings w
     \<and> browser w1 = browser w
     \<and> (c \<longrightarrow> (\<exists>h. browser w1 = Some h \<and> hd (trace w1) = Probe h True))"
  by (auto simp: isBrowserConnected_def launchAttempts_def sessionListings_def tick_def
      split: option.splits)

lemma launch_effect:
  "launch e w = (ok, w2) \<Longrightarrow>
     launchAttempts w2 = Suc (launchAttempts w) \<and> sessionListings w2 = sessionListings w
     \<and> (ok \<longrightarrow> browser w2 = Some (clock w) \<and> hd (trace w2) = Launch True)
     \<and> (\<not> ok \<longrightarrow> browser w2 = browser w \<and> hd (trace w2) = Launch False)"
  by (auto simp: launch_def launchAttempts_def sessionListings_def tick_def split: if_splits)

lemma ensureLoop_contract:
  "ensureLoop e n w = (r, w') \<Longrightarrow>
     launchAttempts w' \<le> launchAttempts w + n
     \<and> (\<not> r \<longrightarrow> launchAttempts w' = launchAttempts w + n
                \<and> sessionListings w' = sessionListings w + (n - 1))
     \<and> (r \<longrightarrow> (\<exists>h. browser w' = Some h
                \<and> (hd (trace w') = Launch True \<or> hd (trace w') = Probe h True)))"
proof (induction n arbitrary: w)
  case 0
  then show ?case by simp
next
  case (Suc n)
  obtain c w1 where c: "(if browser w = None then (False, w) else isBrowserConnected e w) = (c, w1)"
    by (cases "(if browser w = None then (False, w) else isBrowserConnected e w)") auto
  then have w1: "launchAttempts w1 = launchAttempts w" "sessionListings w1 = sessionListings w"
    "c \<longrightarrow> (\<exists>h. browser w1 = Some h \<and> hd (trace w1) = Probe h True)"
    using isBrowserConnected_effect [of e w c w1] by (auto split: if_splits)
  show ?case
  proof (cases c)
    case True
    with Suc.prems c w1 show ?thesis by auto
  next
    case False
    obtain ok w2 where l: "launch e w1 = (ok, w2)" by (cases "launch e w1") auto
    note le = launch_effect [OF l]
    show ?thesis
    proof (cases ok)
      case True
      with Suc.prems c False l le w1 show ?thesis by auto
    next
      case nok: False
      show ?thesis
      proof (cases "n = 0")
        case True
        with Suc.prems c False l le w1 nok show ?thesis by auto
      next
        case n0: False
        with Suc.prems c False l nok
        have "ensureLoop e n (cleanupSessions e w2) = (r, w')" by simp
        from Suc.IH [OF this] le w1 n0 show ?thesis by auto
      qed
    qed
  qed
qed

lemma ensureAlarmIsSet_armed:
  "setAlarmOk e (clock w) \<Longrightarrow> alarmSet (ensureAlarmIsSet e w)"
  "keptAliveInSeconds (ensureAlarmIsSet e w) = keptAliveInSeconds w"
  by (auto simp: ensureAlarmIsSet_def setAlarm_def tick_def)

lemma alarm_below:
  assumes "setAlarmOk e (clock w)" "storagePutOk e (Suc (clock w))"
    and "keptAliveInSeconds w + 10 < KEEP_BROWSER_ALIVE_IN_SECONDS e"
  shows "keptAliveInSeconds (alarm e w) = keptAliveInSeconds w + 10"
    "storedKeptAlive (alarm e w) = Some (keptAliveInSeconds w + 10)"
    "alarmSet (alarm e w)" "browser (alarm e w) = browser w" "closes (alarm e w) = closes w"
  using assms
  by (simp_all add: alarm_def setAlarm_def storagePut_def tick_def closes_def Let_def)

lemma alarm_reached:
  assumes "storagePutOk e (clock (closeBrowser e w))"
    and "\<not> keptAliveInSeconds w + 10 < KEEP_BROWSER_ALIVE_IN_SECONDS e"
  shows "keptAliveInSeconds (alarm e w) = keptAliveInSeconds w + 10"
    "storedKeptAlive (alarm e w) = Some (keptAliveInSeconds w + 10)"
    "alarmSet (alarm e w) = alarmSet w" "browser (alarm e w) = None"
    "closes (alarm e w) = closes w + (if browser w = None then 0 else 1)"
  using assms
  by (auto simp add: alarm_def closeBrowser_def storagePut_def tick_def closes_def Let_def
      split: option.splits)

lemma timerFiresTimes_below:
  assumes ok: "\<forall>t. setAlarmOk e t \<and> storagePutOk e t"
  shows "alarmSet w \<Longrightarrow> keptAliveInSeconds w + 10 * n < KEEP_BROWSER_ALIVE_IN_SECONDS e \<Longrightarrow>
     \<exists>w'. timerFiresTimes e n w = Some w'
        \<and> keptAliveInSeconds w' = keptAliveInSeconds w + 10 * n
        \<and> (0 < n \<longrightarrow> storedKeptAlive w' = Some (keptAliveInSeconds w'))
        \<and> alarmSet w' \<and> browser w' = browser w \<and> closes w' = closes w"
proof (induction n arbitrary: w)
  case 0
  then show ?case by simp
next
  case (Suc n)
  let ?w0 = "w\<lparr>alarmSet := False\<rparr>"
  let ?w1 = "alarm e ?w0"
  have below: "keptAliveInSeconds ?w0 + 10 < KEEP_BROWSER_ALIVE_IN_SECONDS e"
    using Suc.prems by simp
  note a = alarm_below [OF _ _ below]
  have f: "timerFires e w = Some ?w1" using Suc.prems by (simp add: timerFires_def)
  have "alarmSet ?w1" using a(3) ok by simp
  moreover have "keptAliveInSeconds ?w1 + 10 * n < KEEP_BROWSER_ALIVE_IN_SECONDS e"
    using a(1) ok Suc.prems by simp
  ultimately obtain w' where w': "timerFiresTimes e n ?w1 = Some w'"
    "keptAliveInSeconds w' = keptAliveInSeconds ?w1 + 10 * n"
    "0 < n \<longrightarrow> storedKeptAlive w' = Some (keptAliveInSeconds w')"
    "alarmSet w'" "browser w' = browser ?w1" "closes w' = closes ?w1"
    using Suc.IH [of ?w1] by blast
  have n0: "n = 0 \<Longrightarrow> w' = ?w1" using w'(1) by simp
  have "storedKeptAlive w' = Some (keptAliveInSeconds w')"
    using w'(3) n0 a(1,2) ok by (cases "n = 0") auto
  moreover have "closes ?w0 = closes w" by (simp add: closes_def)
  ultimately show ?case using f w' a ok by (auto)
qed

lemma ensureBrowser_false_response:
  assumes "req_method req = ''GET''" "requestedUrl e req \<noteq> []" "isValidUrl (requestedUrl e req)"
    and "\<not> fst (ensureBrowser e (w\<lparr>token := req_token req, llmFilter := req_llmFilter req\<rparr>))"
  shows "fst (fetch e picks req w)
     = Response 500 ''application/json''
         (JsonObject [(''error'', ''Could not start or connect to browser instance'')])"
proof -
  obtain b w1
    where eb: "ensureBrowser e (w\<lparr>token := req_token req, llmFilter := req_llmFilter req\<rparr>)
      = (b, w1)"
    by (cases "ensureBrowser e (w\<lparr>token := req_token req, llmFilter := req_llmFilter req\<rparr>)")
  with assms(4) have "\<not> b" by simp
  with assms(1-3) eb show ?thesis by (simp add: fetch_def fetchBody_def Let_def)
qed

text \<open>
  C5: \<open>ensureBrowser\<close> returns true only with a handle that was just launched or has just
  answered the probe; it makes at most 3 launch attempts, and returns false only after 3
  attempts, with the sessions listed after the first and the second. A clean-up that gets
  the list of sessions attempts to close every session of it, whatever the outcome of the
  individual attempts, and a clean-up never stops the retry loop. When \<open>ensureBrowser\<close>
  returns false the request handler answers with the status 500 and an error body.
\<close>

theorem ensureBrowser_contract:
  assumes "ensureBrowser e w = (r, w')"
  shows "(r \<longrightarrow> (\<exists>h. browser w' = Some h
                \<and> (hd (trace w') = Launch True \<or> hd (trace w') = Probe h True)))
    \<and> launchAttempts w' \<le> launchAttempts w + 3
    \<and> (\<not> r \<longrightarrow> launchAttempts w' = launchAttempts w + 3
               \<and> sessionListings w' = sessionListings w + 2)
    \<and> (\<forall>v sessions. sessionsAt e (clock v) = Some sessions \<longrightarrow>
          trace (cleanupSessions e v)
            = rev (map (\<lambda>(sessionId, ok). CloseSession sessionId ok) sessions)
                @ ListSessions True # trace v)
    \<and> (\<forall>v. sessionsAt e (clock v) = None \<longrightarrow>
          trace (cleanupSessions e v) = ListSessions False # trace v)
    \<and> (\<forall>picks req. req_method req = ''GET'' \<and> requestedUrl e req \<noteq> []
          \<and> isValidUrl (requestedUrl e req)
          \<and> \<not> fst (ensureBrowser e (w\<lparr>token := req_token req, llmFilter := req_llmFilter req\<rparr>))
          \<longrightarrow> fst (fetch e picks req w)
                = Response 500 ''application/json''
                    (JsonObject [(''error'', ''Could not start or connect to browser instance'')]))"
proof -
  from assms have loop: "ensureLoop e 3 w = (r, w')" by (simp add: ensureBrowser_def)
  have cleanup: "trace (cleanupSessions e v)
      = rev (map (\<lambda>(sessionId, ok). CloseSession sessionId ok) sessions)
          @ ListSessions True # trace v"
    if "sessionsAt e (clock v) = Some sessions" for v sessions
    using that by (simp add: cleanupSessions_def trace_closeSessions tick_def)
  have listing: "trace (cleanupSessions e v) = ListSessions False # trace v"
    if "sessionsAt e (clock v) = None" for v
    using that by (simp add: cleanupSessions_def tick_def)
  from ensureLoop_contract [OF loop] cleanup listing ensureBrowser_false_response
  show ?thesis by (simp del: rev_map)
qed

text \<open>
  Two runs: in \<open>failingEnv\<close> every launch fails (and the first of two orphaned sessions
  cannot be closed), in \<open>exampleEnv\<close> the first launch succeeds.
\<close>

theorem ensureBrowser_contract_witness:
  "ensureBrowser failingEnv freshWorld
     = (False, freshWorld\<lparr>clock := 9,
          trace := [Launch False,
                    CloseSession ''s2'' True, CloseSession ''s1'' False, ListSessions True,
                    Launch False,
                    CloseSession ''s2'' True, CloseSession ''s1'' False, ListSessions True,
                    Launch False]\<rparr>)
   \<and> launchAttempts (snd (ensureBrowser failingEnv freshWorld)) = 3
   \<and> sessionListings (snd (ensureBrowser failingEnv freshWorld)) = 2
   \<and> fst (fetch failingEnv [] (getRequest (Some ''https://example.com/'')) freshWorld)
       = Response 500 ''application/json''
           (JsonObject [(''error'', ''Could not start or connect to browser instance'')])
   \<and> fst (ensureBrowser exampleEnv freshWorld)
   \<and> browser (snd (ensureBrowser exampleEnv freshWorld)) = Some 0
   \<and> hd (trace (snd (ensureBrowser exampleEnv freshWorld))) = Launch True"
proof -
  have run: "ensureBrowser failingEnv freshWorld
     = (False, freshWorld\<lparr>clock := 9,
          trace := [Launch False,
                    CloseSession ''s2'' True, CloseSession ''s1'' False, ListSessions True,
                    Launch False,
                    CloseSession ''s2'' True, CloseSession ''s1'' False, ListSessions True,
                    Launch False]\<rparr>)"
    by (simp add: ensureBrowser_def numeral_3_eq_3 failingEnv_def exampleEnv_def freshWorld_def
        launch_def cleanupSessions_def tick_def Let_def)
  have ok: "ensureBrowser exampleEnv freshWorld
     = (True, freshWorld\<lparr>clock := 1, trace := [Launch True], browser := Some 0\<rparr>)"
    by (simp add: ensureBrowser_def numeral_3_eq_3 exampleEnv_def freshWorld_def
        launch_def tick_def Let_def)
  have req: "req_method (getRequest (Some ''https://example.com/'')) = ''GET''"
    "requestedUrl failingEnv (getRequest (Some ''https://example.com/'')) = ''https://example.com/''"
    "isValidUrl ''https://example.com/''"
    "freshWorld\<lparr>token := req_token (getRequest (Some ''https://example.com/'')),
        llmFilter := req_llmFilter (getRequest (Some ''https://example.com/''))\<rparr>
       = freshWorld\<lparr>token := ''secret''\<rparr>"
    by (simp_all add: getRequest_def requestedUrl_def isValidUrl_def freshWorld_def)
  have run': "\<not> fst (ensureBrowser failingEnv (freshWorld\<lparr>token := ''secret''\<rparr>))"
    by (simp add: ensureBrowser_def numeral_3_eq_3 failingEnv_def exampleEnv_def freshWorld_def
        launch_def cleanupSessions_def tick_def Let_def)
  from ensureBrowser_contract [OF run] ensureBrowser_contract [OF ok] run ok req run'
  show ?thesis
    by (simp add: freshWorld_def launchAttempts_def sessionListings_def del: rev_map)
qed

lemma timerFiresTimes_Suc_end:
  "timerFiresTimes e m w = Some v \<Longrightarrow> timerFiresTimes e (Suc m) w = timerFires e v"
proof (induction m arbitrary: w)
  case 0
  then show ?case by (simp split: option.splits)
next
  case (Suc m)
  then obtain w1 where w1: "timerFires e w = Some w1" "timerFiresTimes e m w1 = Some v"
    by (auto split: option.splits)
  from Suc.IH [OF w1(2)] w1(1) show ?case by simp
qed

lemma closes_alarmSet_update [simp]: "closes (w\<lparr>alarmSet := b\<rparr>) = closes w"
  by (simp add: closes_def)

text \<open>
  C1, as stated, fails. Take an object without a browser handle whose counter, stored and in
  memory, is 50, with the alarm set and a threshold of 60, and a request for the help page.
  After the request the counter in memory is 0 and the stored counter is still 50 (the
  reset is not written back); the first firing then stores 10, which is not 50 + 10; and
  after six firings the counter has reached the threshold with no handle closed.
\<close>

theorem idle_counter_counterexample:
  "keptAliveInSeconds (snd (fetch exampleEnv [] (getRequest None) idleWorld)) = 0
   \<and> storedKeptAlive (snd (fetch exampleEnv [] (getRequest None) idleWorld)) = Some 50
   \<and> map_option storedKeptAlive
        (timerFiresTimes exampleEnv 1 (snd (fetch exampleEnv [] (getRequest None) idleWorld)))
       = Some (Some 10)
   \<and> map_option keptAliveInSeconds
        (timerFiresTimes exampleEnv 6 (snd (fetch exampleEnv [] (getRequest None) idleWorld)))
       = Some 60
   \<and> map_option closes
        (timerFiresTimes exampleEnv 6 (snd (fetch exampleEnv [] (getRequest None) idleWorld)))
       = Some 0"
proof -
  have f: "snd (fetch exampleEnv [] (getRequest None) idleWorld)
      = idleWorld\<lparr>keptAliveInSeconds := 0, token := ''secret''\<rparr>"
    by (simp add: fetch_def fetchBody_def getRequest_def requestedUrl_def idleWorld_def
        freshWorld_def ensureAlarmIsSet_def Let_def)
  show ?thesis
    unfolding f
    by (simp add: eval_nat_numeral timerFires_def alarm_def setAlarm_def storagePut_def
        closeBrowser_def tick_def closes_def idleWorld_def freshWorld_def exampleEnv_def Let_def)
qed

text \<open>
  C1, amended: absent inbound requests and failures of the storage, each firing of the idle
  timer adds 10 to the counter in memory and writes it to the storage, so after \<open>n \<ge> 1\<close>
  consecutive firings both are the counter before the firings plus \<open>10 n\<close>; the timer is
  set again after each firing that leaves the counter below the threshold; the firing that
  brings the counter to the threshold closes the browser handle exactly once when there is
  one (and closes nothing when there is none), clears the handle and sets no timer, so
  that nothing fires until a new request arrives; a request resets the counter in memory to
  0 and leaves a timer set.
\<close>

theorem idle_timer_lifecycle:
  assumes ok: "\<forall>t. setAlarmOk e t \<and> storagePutOk e t"
    and armed: "alarmSet w"
    and pos: "0 < n"
    and below: "keptAliveInSeconds w + 10 * (n - 1) < KEEP_BROWSER_ALIVE_IN_SECONDS e"
  shows "\<exists>w'. timerFiresTimes e n w = Some w'
      \<and> keptAliveInSeconds w' = keptAliveInSeconds w + 10 * n
      \<and> storedKeptAlive w' = Some (keptAliveInSeconds w + 10 * n)
      \<and> alarmSet w' = (keptAliveInSeconds w + 10 * n < KEEP_BROWSER_ALIVE_IN_SECONDS e)
      \<and> closes w' = closes w
           + (if keptAliveInSeconds w + 10 * n < KEEP_BROWSER_ALIVE_IN_SECONDS e \<or> browser w = None
              then 0 else 1)
      \<and> browser w' = (if keptAliveInSeconds w + 10 * n < KEEP_BROWSER_ALIVE_IN_SECONDS e
                       then browser w else None)
      \<and> (if keptAliveInSeconds w + 10 * n < KEEP_BROWSER_ALIVE_IN_SECONDS e
          then timerFires e w' \<noteq> None else timerFires e w' = None)
      \<and> keptAliveInSeconds (snd (fetch e picks req w')) = 0
      \<and> alarmSet (snd (fetch e picks req w'))"
proof -
  obtain m where n: "n = Suc m" using pos by (cases n) auto
  with below have "keptAliveInSeconds w + 10 * m < KEEP_BROWSER_ALIVE_IN_SECONDS e" by simp
  from timerFiresTimes_below [OF ok armed this]
  obtain v where v: "timerFiresTimes e m w = Some v"
    "keptAliveInSeconds v = keptAliveInSeconds w + 10 * m"
    "alarmSet v" "browser v = browser w" "closes v = closes w"
    by blast
  let ?v0 = "v\<lparr>alarmSet := False\<rparr>"
  let ?w' = "alarm e ?v0"
  have fires: "timerFiresTimes e n w = Some ?w'"
    using timerFiresTimes_Suc_end [OF v(1)] v(3) n by (simp add: timerFires_def)
  have kept: "keptAliveInSeconds w + 10 * n = keptAliveInSeconds ?v0 + 10"
    using v(2) n by simp
  have req: "keptAliveInSeconds (snd (fetch e picks req u)) = 0
      \<and> alarmSet (snd (fetch e picks req u))" for u
    using ok by (simp add: fetch_def ensureAlarmIsSet_armed split: prod.splits)
  show ?thesis
  proof (cases "keptAliveInSeconds ?v0 + 10 < KEEP_BROWSER_ALIVE_IN_SECONDS e")
    case True
    have a: "keptAliveInSeconds ?w' = keptAliveInSeconds ?v0 + 10"
      "storedKeptAlive ?w' = Some (keptAliveInSeconds ?v0 + 10)"
      "alarmSet ?w'" "browser ?w' = browser ?v0" "closes ?w' = closes ?v0"
      using alarm_below [OF _ _ True] ok by simp_all
    from a True fires v kept req show ?thesis
      by (intro exI [of _ ?w']) (simp add: timerFires_def)
  next
    case False
    have a: "keptAliveInSeconds ?w' = keptAliveInSeconds ?v0 + 10"
      "storedKeptAlive ?w' = Some (keptAliveInSeconds ?v0 + 10)"
      "alarmSet ?w' = alarmSet ?v0" "browser ?w' = None"
      "closes ?w' = closes ?v0 + (if browser ?v0 = None then 0 else 1)"
      using alarm_reached [OF _ False] ok by simp_all
    from a False fires v kept req show ?thesis
      by (intro exI [of _ ?w']) (simp add: timerFires_def)
  qed
qed

text \<open>
  A run with a threshold of 60: an object with a browser handle and the alarm set reaches
  the threshold with the sixth firing, which closes the handle; after four firings the
  counter is 40 and the timer is set.
\<close>

theorem idle_timer_lifecycle_witness:
  "(\<exists>w'. timerFiresTimes exampleEnv 6 warmWorld = Some w'
      \<and> keptAliveInSeconds w' = 60 \<and> storedKeptAlive w' = Some 60 \<and> \<not> alarmSet w'
      \<and> closes w' = 1 \<and> browser w' = None \<and> timerFires exampleEnv w' = None
      \<and> keptAliveInSeconds (snd (fetch exampleEnv [] (getRequest None) w')) = 0
      \<and> alarmSet (snd (fetch exampleEnv [] (getRequest None) w')))
   \<and> (\<exists>w'. timerFiresTimes exampleEnv 4 warmWorld = Some w'
      \<and> keptAliveInSeconds w' = 40 \<and> storedKeptAlive w' = Some 40 \<and> alarmSet w'
      \<and> closes w' = 0 \<and> browser w' = Some 0)"
proof -
  have ok: "\<forall>t. setAlarmOk exampleEnv t \<and> storagePutOk exampleEnv t"
    by (simp add: exampleEnv_def)
  have w: "alarmSet warmWorld" "keptAliveInSeconds warmWorld = 0" "browser warmWorld = Some 0"
    "closes warmWorld = 0" "KEEP_BROWSER_ALIVE_IN_SECONDS exampleEnv = 60"
    by (simp_all add: warmWorld_def freshWorld_def closes_def exampleEnv_def)
  have six: "keptAliveInSeconds warmWorld + 10 * (6 - 1) < KEEP_BROWSER_ALIVE_IN_SECONDS exampleEnv"
    and four: "keptAliveInSeconds warmWorld + 10 * (4 - 1) < KEEP_BROWSER_ALIVE_IN_SECONDS exampleEnv"
    using w by simp_all
  from idle_timer_lifecycle [OF ok w(1) _ six, of "[]" "getRequest None"]
    idle_timer_lifecycle [OF ok w(1) _ four, of "[]" "getRequest None"] w
  show ?thesis by simp blast
qed

section \<open>Routing\<close>

lemma routedLog_simps [simp]:
  "routedLog (tick ev w) = (case routedOf ev of None \<Rightarrow> routedLog w | Some x \<Rightarrow> x # routedLog w)"
  "routedLog (logEvent ev w) = (case routedOf ev of None \<Rightarrow> routedLog w | Some x \<Rightarrow> x # routedLog w)"
  "routedLog (cachePut key v ttl w) = routedLog w"
  "routedLog (cacheDelete key w) = routedLog w"
  by (simp_all add: routedLog_def tick_def logEvent_def cachePut_def cacheDelete_def
      List.map_filter_simps split: option.splits)

lemma routedLog_fetchRedditPublicApi [simp]:
  "routedLog (snd (fetchRedditPublicApi e subreddit key w)) = routedLog w"
  by (simp add: fetchRedditPublicApi_def Let_def split: publicOutcome.splits)

lemma routedLog_redditAccessToken [simp]:
  "routedLog (snd (redditAccessToken e w)) = routedLog w"
  by (simp add: redditAccessToken_def Let_def split: tokenOutcome.splits)

lemma routedLog_fetchRedditAuthenticatedApi [simp]:
  "routedLog (snd (fetchRedditAuthenticatedApi e subreddit key w)) = routedLog w"
proof -
  obtain t w1 where t: "redditAccessToken e w = (t, w1)" by (cases "redditAccessToken e w")
  then have "routedLog w1 = routedLog w"
    using routedLog_redditAccessToken [of e w] by simp
  with t show ?thesis
    by (simp add: fetchRedditAuthenticatedApi_def Let_def split: sum.splits authOutcome.splits)
qed

lemma routedLog_handleRedditURL [simp]:
  "routedLog (snd (handleRedditURL e url w)) = routedLog w"
proof (cases "matchSubreddit url")
  case None
  then show ?thesis by (simp add: handleRedditURL_def)
next
  case (Some subreddit)
  obtain md lim w1 where p: "fetchRedditPublicApi e subreddit (''Reddit:'' @ url) w = ((md, lim), w1)"
    by (cases "fetchRedditPublicApi e subreddit (''Reddit:'' @ url) w") auto
  then have w1: "routedLog w1 = routedLog w"
    using routedLog_fetchRedditPublicApi [of e subreddit "''Reddit:'' @ url" w] by simp
  obtain a w2 where a: "fetchRedditAuthenticatedApi e subreddit (''Reddit:'' @ url) w1 = (a, w2)"
    by (cases "fetchRedditAuthenticatedApi e subreddit (''Reddit:'' @ url) w1")
  then have "routedLog w2 = routedLog w1"
    using routedLog_fetchRedditAuthenticatedApi [of e subreddit "''Reddit:'' @ url" w1] by simp
  with Some p a w1 show ?thesis
    by (simp add: handleRedditURL_def Let_def)
qed

lemma routedLog_defaultBranch [simp]:
  "routedLog (snd (defaultBranch e url w)) = routedLog w"
  by (simp add: defaultBranch_def Let_def split: sum.splits)

lemma rateLimited_admitted:
  "\<not> fst (rateLimited e w) \<Longrightarrow> routedLog (snd (rateLimited e w)) = routedLog w"
  by (simp add: rateLimited_def split: if_splits)

lemma routedLog_processUrlBody:
  assumes "\<not> fst (rateLimited e w)"
  shows "routedLog (snd (processUrlBody e url w))
     = (url, if isYouTubeUrl url then YouTube
             else if isTwitterUrl url
             then (if \<not> isLikelyStatus url \<and> 3 < length (urlParts url) then TwitterProfile
                   else if isLikelyStatus url then TwitterTweet else TwitterFallback)
             else if isRedditUrl url then Reddit else DefaultPage) # routedLog w"
proof -
  obtain l w0 where l: "rateLimited e w = (l, w0)" by (cases "rateLimited e w")
  with assms have nl: "\<not> l" and w0: "routedLog w0 = routedLog w"
    using rateLimited_admitted [of e w] by simp_all
  obtain r w1 where r: "handleRedditURL e url (logEvent (Routed url Reddit) w0) = (r, w1)"
    by (cases "handleRedditURL e url (logEvent (Routed url Reddit) w0)")
  then have "routedLog w1 = (url, Reddit) # routedLog w"
    using routedLog_handleRedditURL [of e url "logEvent (Routed url Reddit) w0"] w0 by simp
  with l nl w0 r show ?thesis
    by (simp add: processUrlBody_def Let_def split: sum.splits prod.splits)
qed

text \<open>Splitting at a single character.\<close>

lemma splitAcc_not_Nil [simp]: "splitAcc sep k cur s \<noteq> []"
  by (induction s arbitrary: k cur) auto

lemma splitAcc_char_absent: "c \<notin> set s \<Longrightarrow> splitAcc [c] 0 cur s = [cur @ s]"
  by (induction s arbitrary: cur) auto

lemma last_splitAcc_char:
  "last (splitAcc [c] 0 cur (p @ c # s)) = last (splitAcc [c] 0 [] s)"
  by (induction p arbitrary: cur) auto

lemma hd_splitAcc_char:
  "c \<notin> set a \<Longrightarrow> hd (splitAcc [c] 0 cur (a @ c # b)) = cur @ a"
  by (induction a arbitrary: cur) auto

lemma digits_no_separator:
  "list_all isDigit ds \<Longrightarrow> CHR ''/'' \<notin> set ds \<and> CHR ''?'' \<notin> set ds"
  by (induction ds) (auto simp: isDigit_def)

lemma isLikelyStatus_numeric_segment:
  assumes "ds \<noteq> []" "list_all isDigit ds"
  shows "isLikelyStatus (p @ ''/'' @ ds)"
    and "CHR ''/'' \<notin> set q \<Longrightarrow> isLikelyStatus (p @ ''/'' @ ds @ ''?'' @ q)"
proof -
  note d = digits_no_separator [OF assms(2)]
  have "lastPart (p @ ''/'' @ ds) = ds"
    using d last_splitAcc_char [of "CHR ''/''" "[]" p ds]
    by (simp add: lastPart_def urlParts_def splitStr_def splitAcc_char_absent)
  then show "isLikelyStatus (p @ ''/'' @ ds)"
    using assms d by (simp add: isLikelyStatus_def splitStr_def splitAcc_char_absent)
  assume q: "CHR ''/'' \<notin> set q"
  have "lastPart (p @ ''/'' @ ds @ ''?'' @ q) = ds @ ''?'' @ q"
    using d q last_splitAcc_char [of "CHR ''/''" "[]" p "ds @ ''?'' @ q"]
    by (simp add: lastPart_def urlParts_def splitStr_def splitAcc_char_absent)
  then show "isLikelyStatus (p @ ''/'' @ ds @ ''?'' @ q)"
    using assms d hd_splitAcc_char [of "CHR ''?''" ds "[]" q]
    by (simp add: isLikelyStatus_def splitStr_def)
qed

text \<open>
  C6, as stated, fails: in \<open>https://x.com/user/status/123?ref=a/b\<close>, a social-host URL
  that matches no video pattern, the last path segment is \<open>123\<close>, all digits, and the
  URL is routed to the profile strategy, since the part after the last \<open>/\<close> of the
  string is \<open>b\<close>.
\<close>

theorem routing_numeric_segment_counterexample:
  "isTwitterUrl ''https://x.com/user/status/123?ref=a/b''
   \<and> \<not> isYouTubeUrl ''https://x.com/user/status/123?ref=a/b''
   \<and> specLastPathSegment ''https://x.com/user/status/123?ref=a/b'' = ''123''
   \<and> list_all isDigit ''123''
   \<and> routedLog (snd (processUrlBody exampleEnv ''https://x.com/user/status/123?ref=a/b''
         authorizedWorld))
       = [(''https://x.com/user/status/123?ref=a/b'', TwitterProfile)]"
proof -
  have a: "\<not> fst (rateLimited exampleEnv authorizedWorld)"
    by (simp add: rateLimited_def exampleEnv_def authorizedWorld_def freshWorld_def)
  have l: "routedLog authorizedWorld = []"
    by (simp add: routedLog_def authorizedWorld_def freshWorld_def List.map_filter_simps)
  have u: "isTwitterUrl ''https://x.com/user/status/123?ref=a/b''"
    "\<not> isYouTubeUrl ''https://x.com/user/status/123?ref=a/b''"
    "\<not> isLikelyStatus ''https://x.com/user/status/123?ref=a/b''"
    "3 < length (urlParts ''https://x.com/user/status/123?ref=a/b'')"
    "specLastPathSegment ''https://x.com/user/status/123?ref=a/b'' = ''123''"
    "list_all isDigit ''123''"
    by (simp_all add: isTwitterUrl_def isYouTubeUrl_def isLikelyStatus_def lastPart_def
        urlParts_def splitStr_def isDigit_def specLastPathSegment_def)
  from routedLog_processUrlBody [OF a, of "''https://x.com/user/status/123?ref=a/b''"] l u
  show ?thesis by simp
qed

text \<open>
  C6, amended: the strategy that the per-URL operation routes an admitted URL to is a
  function of the URL string alone (the same for every outside world and state), fixed by
  the chain's precedence: the video patterns first; then the social hosts, with the tweet
  strategy when the part of the string after its last \<open>/\<close>, cut at its first \<open>?\<close>, is a
  non-empty string of digits, the profile strategy when it is not and the string has more
  than three parts between its \<open>/\<close>, and the fallback to the generic handler otherwise;
  then the forum pattern; then the default. In particular a social-host URL that is not a
  video URL and ends in \<open>/\<close> and digits, with or without a query free of \<open>/\<close> after
  them, goes to the tweet strategy, not to the profile strategy.
\<close>

theorem routing_precedence:
  assumes "\<not> fst (rateLimited e w)"
  shows "(\<exists>s. routedLog (snd (processUrlBody e url w)) = (url, s) # routedLog w
           \<and> (\<forall>e' w'. \<not> fst (rateLimited e' w') \<longrightarrow>
                 routedLog (snd (processUrlBody e' url w')) = (url, s) # routedLog w'))
    \<and> (isYouTubeUrl url \<longrightarrow>
         routedLog (snd (processUrlBody e url w)) = (url, YouTube) # routedLog w)
    \<and> (\<not> isYouTubeUrl url \<and> isTwitterUrl url \<and> isLikelyStatus url \<longrightarrow>
         routedLog (snd (processUrlBody e url w)) = (url, TwitterTweet) # routedLog w)
    \<and> (\<not> isYouTubeUrl url \<and> isTwitterUrl url \<and> \<not> isLikelyStatus url
         \<and> 3 < length (urlParts url) \<longrightarrow>
         routedLog (snd (processUrlBody e url w)) = (url, TwitterProfile) # routedLog w)
    \<and> (\<not> isYouTubeUrl url \<and> isTwitterUrl url \<and> \<not> isLikelyStatus url
         \<and> \<not> 3 < length (urlParts url) \<longrightarrow>
         routedLog (snd (processUrlBody e url w)) = (url, TwitterFallback) # routedLog w)
    \<and> (\<not> isYouTubeUrl url \<and> \<not> isTwitterUrl url \<and> isRedditUrl url \<longrightarrow>
         routedLog (snd (processUrlBody e url w)) = (url, Reddit) # routedLog w)
    \<and> (\<not> isYouTubeUrl url \<and> \<not> isTwitterUrl url \<and> \<not> isRedditUrl url \<longrightarrow>
         routedLog (snd (processUrlBody e url w)) = (url, DefaultPage) # routedLog w)
    \<and> (\<forall>p ds q. url = p @ ''/'' @ ds \<or> (url = p @ ''/'' @ ds @ ''?'' @ q \<and> CHR ''/'' \<notin> set q) \<longrightarrow>
         ds \<noteq> [] \<and> list_all isDigit ds \<and> isTwitterUrl url \<and> \<not> isYouTubeUrl url \<longrightarrow>
         routedLog (snd (processUrlBody e url w)) = (url, TwitterTweet) # routedLog w)"
proof -
  note r = routedLog_processUrlBody
  have same: "\<exists>s. routedLog (snd (processUrlBody e url w)) = (url, s) # routedLog w
      \<and> (\<forall>e' w'. \<not> fst (rateLimited e' w') \<longrightarrow>
            routedLog (snd (processUrlBody e' url w')) = (url, s) # routedLog w')"
    using r [OF assms, of url] r by blast
  have digits: "routedLog (snd (processUrlBody e url w)) = (url, TwitterTweet) # routedLog w"
    if "url = p @ ''/'' @ ds \<or> (url = p @ ''/'' @ ds @ ''?'' @ q \<and> CHR ''/'' \<notin> set q)"
      "ds \<noteq> []" "list_all isDigit ds" "isTwitterUrl url" "\<not> isYouTubeUrl url" for p ds q
  proof -
    have "isLikelyStatus url"
      using that(1) isLikelyStatus_numeric_segment [OF that(2,3)] by blast
    with that r [OF assms, of url] show ?thesis by simp
  qed
  from same digits r [OF assms, of url] show ?thesis by simp
qed

text \<open>
  A tweet URL with and without a query, a profile URL, the bare host, a video URL on a
  social host, a forum URL and a generic URL.
\<close>

theorem routing_precedence_witness:
  "routedLog (snd (processUrlBody exampleEnv ''https://x.com/user/status/12345'' freshWorld))
     = [(''https://x.com/user/status/12345'', TwitterTweet)]
   \<and> routedLog (snd (processUrlBody exampleEnv ''https://x.com/user/status/12345?s=20'' freshWorld))
     = [(''https://x.com/user/status/12345?s=20'', TwitterTweet)]
   \<and> routedLog (snd (processUrlBody exampleEnv ''https://twitter.com/user'' freshWorld))
     = [(''https://twitter.com/user'', TwitterProfile)]
   \<and> routedLog (snd (processUrlBody exampleEnv ''https://x.com'' freshWorld))
     = [(''https://x.com'', TwitterFallback)]
   \<and> routedLog (snd (processUrlBody exampleEnv ''https://x.com/youtu.be/1'' freshWorld))
     = [(''https://x.com/youtu.be/1'', YouTube)]
   \<and> routedLog (snd (processUrlBody exampleEnv ''https://www.reddit.com/r/news'' freshWorld))
     = [(''https://www.reddit.com/r/news'', Reddit)]
   \<and> routedLog (snd (processUrlBody exampleEnv ''https://example.com/'' freshWorld))
     = [(''https://example.com/'', DefaultPage)]"
proof -
  have a: "\<not> fst (rateLimited exampleEnv freshWorld)"
    by (simp add: rateLimited_def exampleEnv_def freshWorld_def)
  have l: "routedLog freshWorld = []"
    by (simp add: routedLog_def freshWorld_def List.map_filter_simps)
  have d: "list_all isDigit ''12345''" by (simp add: isDigit_def)
  have tw: "isTwitterUrl ''https://x.com/user/status/12345''"
    "isTwitterUrl ''https://x.com/user/status/12345?s=20''"
    "isTwitterUrl ''https://twitter.com/user''" "isTwitterUrl ''https://x.com''"
    "\<not> isTwitterUrl ''https://www.reddit.com/r/news''" "\<not> isTwitterUrl ''https://example.com/''"
    by (simp_all add: isTwitterUrl_def)
  have yt: "\<not> isYouTubeUrl ''https://x.com/user/status/12345''"
    "\<not> isYouTubeUrl ''https://x.com/user/status/12345?s=20''"
    "\<not> isYouTubeUrl ''https://twitter.com/user''" "\<not> isYouTubeUrl ''https://x.com''"
    "isYouTubeUrl ''https://x.com/youtu.be/1''"
    "\<not> isYouTubeUrl ''https://www.reddit.com/r/news''" "\<not> isYouTubeUrl ''https://example.com/''"
    by (simp_all add: isYouTubeUrl_def)
  have rd: "isRedditUrl ''https://www.reddit.com/r/news''" "\<not> isRedditUrl ''https://example.com/''"
    by (simp_all add: isRedditUrl_def)
  have st: "\<not> isLikelyStatus ''https://twitter.com/user''" "\<not> isLikelyStatus ''https://x.com''"
    "3 < length (urlParts ''https://twitter.com/user'')" "\<not> 3 < length (urlParts ''https://x.com'')"
    by (simp_all add: isLikelyStatus_def lastPart_def urlParts_def splitStr_def isDigit_def)
  have s1: "isLikelyStatus ''https://x.com/user/status/12345''"
    using isLikelyStatus_numeric_segment(1) [of "''12345''" "''https://x.com/user/status''"] d
    by simp
  have s2: "isLikelyStatus ''https://x.com/user/status/12345?s=20''"
    using isLikelyStatus_numeric_segment(2)
      [of "''12345''" "''s=20''" "''https://x.com/user/status''"] d
    by simp
  note r = routing_precedence [OF a]
  have c1: "routedLog (snd (processUrlBody exampleEnv ''https://x.com/user/status/12345'' freshWorld))
     = [(''https://x.com/user/status/12345'', TwitterTweet)]"
    using r [of "''https://x.com/user/status/12345''"] l tw yt s1 by simp
  have c2: "routedLog (snd (processUrlBody exampleEnv ''https://x.com/user/status/12345?s=20'' freshWorld))
     = [(''https://x.com/user/status/12345?s=20'', TwitterTweet)]"
    using r [of "''https://x.com/user/status/12345?s=20''"] l tw yt s2 by simp
  have c3: "routedLog (snd (processUrlBody exampleEnv ''https://twitter.com/user'' freshWorld))
     = [(''https://twitter.com/user'', TwitterProfile)]"
    using r [of "''https://twitter.com/user''"] l tw yt st by simp
  have c4: "routedLog (snd (processUrlBody exampleEnv ''https://x.com'' freshWorld))
     = [(''https://x.com'', TwitterFallback)]"
    using r [of "''https://x.com''"] l tw yt st by simp
  have c5: "routedLog (snd (processUrlBody exampleEnv ''https://x.com/youtu.be/1'' freshWorld))
     = [(''https://x.com/youtu.be/1'', YouTube)]"
    using r [of "''https://x.com/youtu.be/1''"] l yt by simp
  have c6: "routedLog (snd (processUrlBody exampleEnv ''https://www.reddit.com/r/news'' freshWorld))
     = [(''https://www.reddit.com/r/news'', Reddit)]"
    using r [of "''https://www.reddit.com/r/news''"] l tw yt rd by simp
  have c7: "routedLog (snd (processUrlBody exampleEnv ''https://example.com/'' freshWorld))
     = [(''https://example.com/'', DefaultPage)]"
    using r [of "''https://example.com/''"] l tw yt rd by simp
  from c1 c2 c3 c4 c5 c6 c7 show ?thesis by blast
qed

section \<open>The cache of the default branch\<close>

lemma pageFetches_simps [simp]:
  "pageFetches (tick ev w) = (case pageFetchOf ev of None \<Rightarrow> pageFetches w | Some x \<Rightarrow> x # pageFetches w)"
  "pageFetches (logEvent ev w) = (case pageFetchOf ev of None \<Rightarrow> pageFetches w | Some x \<Rightarrow> x # pageFetches w)"
  "pageFetches (cachePut key v ttl w) = pageFetches w"
  "pageFetches (cacheDelete key w) = pageFetches w"
  by (simp_all add: pageFetches_def tick_def logEvent_def cachePut_def cacheDelete_def
      List.map_filter_simps split: option.splits)

lemma world_fields_simps [simp]:
  "cache (tick ev w) = cache w" "cache (logEvent ev w) = cache w"
  "llmFilter (tick ev w) = llmFilter w" "llmFilter (logEvent ev w) = llmFilter w"
  "llmFilter (cachePut key v ttl w) = llmFilter w" "llmFilter (cacheDelete key w) = llmFilter w"
  "token (tick ev w) = token w" "token (logEvent ev w) = token w"
  "token (cachePut key v ttl w) = token w" "token (cacheDelete key w) = token w"
  "clock (tick ev w) = Suc (clock w)" "clock (logEvent ev w) = clock w"
  "clock (cachePut key v ttl w) = clock w" "clock (cacheDelete key w) = clock w"
  "cache (cachePut key v ttl w) = (cache w)(key \<mapsto> (v, ttl))"
  "cache (cacheDelete key w) = (cache w)(key := None)"
  by (simp_all add: tick_def logEvent_def cachePut_def cacheDelete_def)

lemma rateLimited_frame:
  "cache (snd (rateLimited e w)) = cache w" "llmFilter (snd (rateLimited e w)) = llmFilter w"
  "token (snd (rateLimited e w)) = token w"
  "pageFetches (snd (rateLimited e w)) = pageFetches w"
  by (simp_all add: rateLimited_def)

lemma processUrl_default:
  assumes "\<not> fst (rateLimited e w)" "\<not> isYouTubeUrl url" "\<not> isTwitterUrl url" "\<not> isRedditUrl url"
  shows "processUrlBody e url w
     = defaultBranch e url (logEvent (Routed url DefaultPage) (snd (rateLimited e w)))"
  using assms by (cases "rateLimited e w") (simp add: processUrlBody_def)

text \<open>The default branch without bypass: a hit.\<close>

lemma defaultBranch_hit:
  assumes "urlHasNocache e url = Inr False" "\<not> includesStr url ''nocache=true''"
    and "cache w (''Default:'' @ url @ (if llmFilter w then ''-llm'' else [])) = Some (v, ttl)"
    and "v \<noteq> []"
  shows "defaultBranch e url w = (Inr (plainResult url v), w)"
  using assms by (simp add: defaultBranch_def cacheGet_def Let_def)

text \<open>The default branch without bypass: a miss.\<close>

lemma defaultBranch_miss:
  assumes "urlHasNocache e url = Inr False" "\<not> includesStr url ''nocache=true''"
    and "cache w key = None \<or> (\<exists>ttl. cache w key = Some ([], ttl))"
    and "key = ''Default:'' @ url @ (if llmFilter w then ''-llm'' else [])"
    and "md = handleDefaultPage e (clock w) url"
  shows "defaultBranch e url w =
     (if startsWith md ''## Error''
      then (Inr \<lparr>res_url = url, res_md = md, res_error = Some True,
                 res_status = Some (if includesStr md ''Timeout'' then 504 else 500),
                 res_errorDetails = Some md\<rparr>, tick (PageFetch url) w)
      else if llmFilter w
      then (Inr (plainResult url (applyLlmFilter e (Suc (clock w)) md)),
            cachePut key (applyLlmFilter e (Suc (clock w)) md) 3600
              (tick LlmFilterCall (tick (PageFetch url) w)))
      else (Inr (plainResult url md), cachePut key md 3600 (tick (PageFetch url) w)))"
  using assms by (auto simp add: defaultBranch_def cacheGet_def Let_def)

lemma processUrl_default_hit:
  assumes "\<not> fst (rateLimited e w)" "\<not> isYouTubeUrl url" "\<not> isTwitterUrl url" "\<not> isRedditUrl url"
    and "urlHasNocache e url = Inr False" "\<not> includesStr url ''nocache=true''"
    and "cache w (''Default:'' @ url @ (if llmFilter w then ''-llm'' else [])) = Some (v, ttl)"
    and "v \<noteq> []"
  shows "processUrl e url w
     = (plainResult url v, logEvent (Routed url DefaultPage) (snd (rateLimited e w)))"
proof -
  let ?w0 = "logEvent (Routed url DefaultPage) (snd (rateLimited e w))"
  have "cache ?w0 (''Default:'' @ url @ (if llmFilter ?w0 then ''-llm'' else [])) = Some (v, ttl)"
    using assms(7) by (simp add: rateLimited_frame)
  from defaultBranch_hit [OF assms(5,6) this assms(8)] processUrl_default [OF assms(1-4)]
  show ?thesis by (simp add: processUrl_def)
qed

lemma processUrl_default_miss:
  assumes "\<not> fst (rateLimited e w)" "\<not> isYouTubeUrl url" "\<not> isTwitterUrl url" "\<not> isRedditUrl url"
    and "urlHasNocache e url = Inr False" "\<not> includesStr url ''nocache=true''"
    and "cache w key = None \<or> (\<exists>ttl. cache w key = Some ([], ttl))"
    and "key = ''Default:'' @ url @ (if llmFilter w then ''-llm'' else [])"
    and "md = handleDefaultPage e (clock (snd (rateLimited e w))) url"
    and "w0 = logEvent (Routed url DefaultPage) (snd (rateLimited e w))"
  shows "processUrl e url w =
     (if startsWith md ''## Error''
      then (\<lparr>res_url = url, res_md = md, res_error = Some True,
             res_status = Some (if includesStr md ''Timeout'' then 504 else 500),
             res_errorDetails = Some md\<rparr>, tick (PageFetch url) w0)
      else if llmFilter w
      then (plainResult url (applyLlmFilter e (Suc (clock (snd (rateLimited e w)))) md),
            cachePut key (applyLlmFilter e (Suc (clock (snd (rateLimited e w)))) md) 3600
              (tick LlmFilterCall (tick (PageFetch url) w0)))
      else (plainResult url md, cachePut key md 3600 (tick (PageFetch url) w0)))"
proof -
  have c: "cache w0 key = None \<or> (\<exists>ttl. cache w0 key = Some ([], ttl))"
    using assms(7,10) by (simp add: rateLimited_frame)
  have k: "key = ''Default:'' @ url @ (if llmFilter w0 then ''-llm'' else [])"
    using assms(8,10) by (simp add: rateLimited_frame)
  have m: "md = handleDefaultPage e (clock w0) url"
    using assms(9,10) by simp
  from defaultBranch_miss [OF assms(5,6) c k m] processUrl_default [OF assms(1-4)] assms(10)
  show ?thesis by (simp add: processUrl_def rateLimited_frame)
qed

lemma processUrl_default_miss_fetches:
  assumes "\<not> fst (rateLimited e w)" "\<not> isYouTubeUrl url" "\<not> isTwitterUrl url" "\<not> isRedditUrl url"
    and "urlHasNocache e url = Inr False" "\<not> includesStr url ''nocache=true''"
    and "cache w key = None \<or> (\<exists>ttl. cache w key = Some ([], ttl))"
    and "key = ''Default:'' @ url @ (if llmFilter w then ''-llm'' else [])"
  shows "pageFetches (snd (processUrl e url w)) = url # pageFetches w"
  by (simp add: processUrl_default_miss [OF assms refl refl] rateLimited_frame)

text \<open>
  C2, as stated, fails in two ways. A URL of a social host that is neither a tweet nor a
  profile URL, such as \<open>https://x.com\<close>, goes to the generic handler and is not routed to
  the video, tweet, profile or forum strategy, yet its successful result is not written to
  the cache. And an entry whose stored value is the empty string is an entry, yet the page
  is fetched.
\<close>

theorem cache_read_through_counterexample:
  "routedLog (snd (processUrl exampleEnv ''https://x.com'' authorizedWorld))
     = [(''https://x.com'', TwitterFallback)]
   \<and> \<not> isError (fst (processUrl exampleEnv ''https://x.com'' authorizedWorld))
   \<and> \<not> startsWith (res_md (fst (processUrl exampleEnv ''https://x.com'' authorizedWorld))) ''## Error''
   \<and> pageFetches (snd (processUrl exampleEnv ''https://x.com'' authorizedWorld)) = [''https://x.com'']
   \<and> cache (snd (processUrl exampleEnv ''https://x.com'' authorizedWorld)) ''Default:https://x.com''
       = None
   \<and> cache emptyEntryWorld ''Default:https://example.com/'' = Some ([], 3600)
   \<and> pageFetches emptyEntryWorld = []
   \<and> pageFetches (snd (processUrl exampleEnv ''https://example.com/'' emptyEntryWorld))
       = [''https://example.com/'']"
proof -
  have ra: "rateLimited exampleEnv authorizedWorld = (False, authorizedWorld)"
    and re: "rateLimited exampleEnv emptyEntryWorld = (False, emptyEntryWorld)"
    by (simp_all add: rateLimited_authorized exampleEnv_fields authorizedWorld_fields
        emptyEntryWorld_fields)
  have ux: "\<not> isYouTubeUrl ''https://x.com''" "isTwitterUrl ''https://x.com''"
    "\<not> isLikelyStatus ''https://x.com''" "\<not> 3 < length (urlParts ''https://x.com'')"
    by (simp_all add: isYouTubeUrl_def isTwitterUrl_def isLikelyStatus_def lastPart_def
        urlParts_def splitStr_def isDigit_def)
  have x: "processUrl exampleEnv ''https://x.com'' authorizedWorld
      = (\<lparr>res_url = ''https://x.com'', res_md = ''# page'' @ [CHR 0x0A, CHR 0x0A] @ ''fresh content'',
           res_error = Some False, res_status = None, res_errorDetails = None\<rparr>,
         tick (PageFetch ''https://x.com'')
           (logEvent (Routed ''https://x.com'' TwitterFallback) authorizedWorld))"
    by (simp add: processUrl_def processUrlBody_def ra ux exampleEnv_fields Let_def)
  have logs: "routedLog authorizedWorld = []" "pageFetches authorizedWorld = []"
    by (simp_all add: routedLog_def pageFetches_def authorizedWorld_fields List.map_filter_simps)
  have cx: "routedLog (snd (processUrl exampleEnv ''https://x.com'' authorizedWorld))
        = [(''https://x.com'', TwitterFallback)]"
    "\<not> isError (fst (processUrl exampleEnv ''https://x.com'' authorizedWorld))"
    "\<not> startsWith (res_md (fst (processUrl exampleEnv ''https://x.com'' authorizedWorld))) ''## Error''"
    "pageFetches (snd (processUrl exampleEnv ''https://x.com'' authorizedWorld)) = [''https://x.com'']"
    "cache (snd (processUrl exampleEnv ''https://x.com'' authorizedWorld)) ''Default:https://x.com''
       = None"
    unfolding x
    by (simp_all add: isError_def logs authorizedWorld_fields)
  have u: "\<not> isYouTubeUrl ''https://example.com/''" "\<not> isTwitterUrl ''https://example.com/''"
    "\<not> isRedditUrl ''https://example.com/''"
    "urlHasNocache exampleEnv ''https://example.com/'' = Inr False"
    "\<not> includesStr ''https://example.com/'' ''nocache=true''"
    by (simp_all add: isYouTubeUrl_def isTwitterUrl_def isRedditUrl_def exampleEnv_fields)
  have a: "\<not> fst (rateLimited exampleEnv emptyEntryWorld)" by (simp add: re)
  have c: "cache emptyEntryWorld ''Default:https://example.com/'' = Some ([], 3600)"
    "pageFetches emptyEntryWorld = []"
    by (simp_all add: emptyEntryWorld_fields pageFetches_def List.map_filter_simps)
  have k: "''Default:https://example.com/''
      = ''Default:'' @ ''https://example.com/'' @ (if llmFilter emptyEntryWorld then ''-llm'' else [])"
    by (simp add: emptyEntryWorld_fields)
  have "cache emptyEntryWorld ''Default:https://example.com/'' = None
      \<or> (\<exists>ttl. cache emptyEntryWorld ''Default:https://example.com/'' = Some ([], ttl))"
    using c(1) by simp
  from processUrl_default_miss_fetches [OF a u this k] c(2)
  have "pageFetches (snd (processUrl exampleEnv ''https://example.com/'' emptyEntryWorld))
      = [''https://example.com/'']" by simp
  with cx c show ?thesis by simp
qed

text \<open>
  C2, amended: for every URL that reaches the default branch (one that matches neither a
  video, nor a social-host, nor the forum pattern), admitted by the rate-limit check and
  requested without cache bypass: if the cache holds a non-empty value for the key
  \<open>Default:{url}{-llm when the filter is on}\<close>, that value is returned verbatim, no page
  is fetched and the cache is unchanged; when there is no entry, or the entry's value is
  empty, the page is fetched once, and the result (filtered when the filter is on) is
  written back with a TTL of 3600 seconds if and only if the fetched page does not start
  with \<open>## Error\<close>; an error result carries the error flag, the status 504 or 500 and the
  page as details, is not written to the cache, and so a later request for the same key
  fetches again.
\<close>

theorem default_page_cache_read_through:
  assumes admitted: "\<not> fst (rateLimited e w)"
    and generic: "\<not> isYouTubeUrl url" "\<not> isTwitterUrl url" "\<not> isRedditUrl url"
    and nobypass: "urlHasNocache e url = Inr False" "\<not> includesStr url ''nocache=true''"
    and key: "key = ''Default:'' @ url @ (if llmFilter w then ''-llm'' else [])"
    and md: "md = handleDefaultPage e (clock (snd (rateLimited e w))) url"
    and final: "final = (if llmFilter w
                         then applyLlmFilter e (Suc (clock (snd (rateLimited e w)))) md else md)"
    and after: "processUrl e url w = (r, w')"
  shows "(\<forall>v ttl. cache w key = Some (v, ttl) \<and> v \<noteq> [] \<longrightarrow>
            r = plainResult url v \<and> pageFetches w' = pageFetches w \<and> cache w' = cache w)
    \<and> (cache w key = None \<or> (\<exists>ttl. cache w key = Some ([], ttl)) \<longrightarrow>
          pageFetches w' = url # pageFetches w
          \<and> (startsWith md ''## Error'' \<longrightarrow>
                cache w' = cache w
                \<and> r = \<lparr>res_url = url, res_md = md, res_error = Some True,
                        res_status = Some (if includesStr md ''Timeout'' then 504 else 500),
                        res_errorDetails = Some md\<rparr>)
          \<and> (\<not> startsWith md ''## Error'' \<longrightarrow>
                cache w' = (cache w)(key \<mapsto> (final, 3600)) \<and> r = plainResult url final))
    \<and> (cache w key = None \<and> startsWith md ''## Error'' \<longrightarrow>
          (\<forall>e'. \<not> fst (rateLimited e' w') \<and> urlHasNocache e' url = Inr False \<longrightarrow>
                pageFetches (snd (processUrl e' url w')) = url # pageFetches w'))"
proof -
  let ?w0 = "logEvent (Routed url DefaultPage) (snd (rateLimited e w))"
  have hit: "r = plainResult url v \<and> pageFetches w' = pageFetches w \<and> cache w' = cache w"
    if "cache w key = Some (v, ttl)" "v \<noteq> []" for v ttl
    using processUrl_default_hit [OF admitted generic nobypass that(1) [unfolded key] that(2)] after
    by (auto simp: rateLimited_frame)
  have miss: "pageFetches w' = url # pageFetches w
      \<and> (startsWith md ''## Error'' \<longrightarrow>
            cache w' = cache w \<and> llmFilter w' = llmFilter w
            \<and> r = \<lparr>res_url = url, res_md = md, res_error = Some True,
                    res_status = Some (if includesStr md ''Timeout'' then 504 else 500),
                    res_errorDetails = Some md\<rparr>)
      \<and> (\<not> startsWith md ''## Error'' \<longrightarrow>
            cache w' = (cache w)(key \<mapsto> (final, 3600)) \<and> r = plainResult url final)"
    if "cache w key = None \<or> (\<exists>ttl. cache w key = Some ([], ttl))"
    using processUrl_default_miss [OF admitted generic nobypass that key md refl] after final
    by (auto simp: rateLimited_frame split: if_splits)
  have again: "pageFetches (snd (processUrl e' url w')) = url # pageFetches w'"
    if "cache w key = None" "startsWith md ''## Error''"
      "\<not> fst (rateLimited e' w')" "urlHasNocache e' url = Inr False" for e'
  proof -
    from miss that(1,2) have same: "cache w' = cache w" "llmFilter w' = llmFilter w" by simp_all
    then have "cache w' key = None \<or> (\<exists>ttl. cache w' key = Some ([], ttl))"
      using that(1) by simp
    moreover have "key = ''Default:'' @ url @ (if llmFilter w' then ''-llm'' else [])"
      using key same by simp
    ultimately show ?thesis
      by (rule processUrl_default_miss_fetches [OF that(3) generic that(4) nobypass(2)])
  qed
  from hit miss again show ?thesis by blast
qed

text \<open>
  Three runs for \<open>https://example.com/\<close>: with a stored value, without one, and without
  one when the page times out.
\<close>

theorem default_page_cache_read_through_witness:
  "fst (processUrl exampleEnv ''https://example.com/'' staleWorld)
     = plainResult ''https://example.com/'' ''# stale''
   \<and> pageFetches (snd (processUrl exampleEnv ''https://example.com/'' staleWorld)) = []
   \<and> pageFetches (snd (processUrl exampleEnv ''https://example.com/'' authorizedWorld))
       = [''https://example.com/'']
   \<and> cache (snd (processUrl exampleEnv ''https://example.com/'' authorizedWorld))
       = [''Default:https://example.com/''
            \<mapsto> (''# page'' @ [CHR 0x0A, CHR 0x0A] @ ''fresh content'', 3600)]
   \<and> fst (processUrl timeoutEnv ''https://example.com/'' authorizedWorld)
       = \<lparr>res_url = ''https://example.com/'', res_md = ''## Error: Navigation Timeout'',
          res_error = Some True, res_status = Some 504,
          res_errorDetails = Some ''## Error: Navigation Timeout''\<rparr>
   \<and> cache (snd (processUrl timeoutEnv ''https://example.com/'' authorizedWorld)) = Map.empty
   \<and> pageFetches (snd (processUrl exampleEnv ''https://example.com/''
         (snd (processUrl timeoutEnv ''https://example.com/'' authorizedWorld))))
       = [''https://example.com/'', ''https://example.com/'']"
proof -
  let ?u = "''https://example.com/''"
  have u: "\<not> isYouTubeUrl ?u" "\<not> isTwitterUrl ?u" "\<not> isRedditUrl ?u"
    by (simp_all add: isYouTubeUrl_def isTwitterUrl_def isRedditUrl_def)
  have nb: "urlHasNocache exampleEnv ?u = Inr False" "urlHasNocache timeoutEnv ?u = Inr False"
    "\<not> includesStr ?u ''nocache=true''"
    by (simp_all add: exampleEnv_fields timeoutEnv_fields)
  have rl: "rateLimited exampleEnv staleWorld = (False, staleWorld)"
    "rateLimited exampleEnv authorizedWorld = (False, authorizedWorld)"
    "rateLimited timeoutEnv authorizedWorld = (False, authorizedWorld)"
    by (simp_all add: rateLimited_authorized exampleEnv_fields timeoutEnv_fields
        staleWorld_fields authorizedWorld_fields)
  have logs: "pageFetches staleWorld = []" "pageFetches authorizedWorld = []"
    by (simp_all add: pageFetches_def staleWorld_fields authorizedWorld_fields
        List.map_filter_simps)
  have k: "''Default:https://example.com/''
      = ''Default:'' @ ?u @ (if llmFilter staleWorld then ''-llm'' else [])"
    "''Default:https://example.com/''
      = ''Default:'' @ ?u @ (if llmFilter authorizedWorld then ''-llm'' else [])"
    by (simp_all add: staleWorld_fields authorizedWorld_fields)
  have pair: "processUrl e ?u w = (fst (processUrl e ?u w), snd (processUrl e ?u w))" for e w
    by simp
  have stale: "fst (processUrl exampleEnv ?u staleWorld) = plainResult ?u ''# stale''
      \<and> pageFetches (snd (processUrl exampleEnv ?u staleWorld)) = []"
    using default_page_cache_read_through
      [of exampleEnv staleWorld ?u, OF _ u nb(1,3) k(1) refl refl pair] rl(1) logs
    by (simp add: staleWorld_fields)
  have fresh: "pageFetches (snd (processUrl exampleEnv ?u authorizedWorld)) = [?u]
      \<and> cache (snd (processUrl exampleEnv ?u authorizedWorld))
          = [''Default:https://example.com/''
               \<mapsto> (''# page'' @ [CHR 0x0A, CHR 0x0A] @ ''fresh content'', 3600)]"
    using default_page_cache_read_through
      [of exampleEnv authorizedWorld ?u, OF _ u nb(1,3) k(2) refl refl pair] rl(2) logs
    by (simp add: authorizedWorld_fields exampleEnv_fields)
  let ?w' = "snd (processUrl timeoutEnv ?u authorizedWorld)"
  have timeout: "fst (processUrl timeoutEnv ?u authorizedWorld)
        = \<lparr>res_url = ?u, res_md = ''## Error: Navigation Timeout'',
           res_error = Some True, res_status = Some 504,
           res_errorDetails = Some ''## Error: Navigation Timeout''\<rparr>
      \<and> cache ?w' = Map.empty \<and> pageFetches ?w' = [?u]
      \<and> (\<not> fst (rateLimited exampleEnv ?w') \<longrightarrow>
            pageFetches (snd (processUrl exampleEnv ?u ?w')) = ?u # pageFetches ?w')"
    using default_page_cache_read_through
      [of timeoutEnv authorizedWorld ?u, OF _ u nb(2,3) k(2) refl refl pair] rl(3) logs nb(1)
    by (simp add: authorizedWorld_fields timeoutEnv_fields)
  have "token ?w' = ''secret''"
    using processUrl_default_miss [of timeoutEnv authorizedWorld ?u, OF _ u nb(2,3) _ k(2) refl refl]
      rl(3)
    by (simp add: authorizedWorld_fields timeoutEnv_fields)
  then have "\<not> fst (rateLimited exampleEnv ?w')"
    by (simp add: rateLimited_authorized exampleEnv_fields)
  with stale fresh timeout show ?thesis by simp
qed

section \<open>The forum handler\<close>

text \<open>
  C10: when the subreddit is found in the URL, the cache has no value for it, and the
  public API yields no content or a rate-limit signal, \<open>handleRedditURL\<close> returns the
  markdown of the authenticated API with the error flag set to whether that markdown
  contains one of \<open>Failed to\<close>, \<open>Error\<close>, \<open>limit\<close>, \<open>failed\<close>, \<open>not configured\<close>
  and \<open>authenticate\<close>; so a listing that was fetched successfully is an error result
  as soon as its text contains, say, \<open>limit\<close> or \<open>Error\<close>.
\<close>

theorem reddit_fallback_error_flag:
  assumes subreddit: "matchSubreddit url = Some subreddit"
    and miss: "cacheGet w (''Reddit:'' @ url) = None \<or> cacheGet w (''Reddit:'' @ url) = Some []"
    and public: "fetchRedditPublicApi e subreddit (''Reddit:'' @ url) w = ((md, isRateLimited), w1)"
    and fallback: "isRateLimited \<or> md = []"
    and auth: "fetchRedditAuthenticatedApi e subreddit (''Reddit:'' @ url) w1 = (authResultMd, w2)"
  shows "handleRedditURL e url w
       = (\<lparr>res_url = url, res_md = authResultMd,
            res_error = Some (hasErrorIndicators authResultMd),
            res_status = None, res_errorDetails = None\<rparr>, w2)
    \<and> (res_error (fst (handleRedditURL e url w)) = Some True
         \<longleftrightarrow> includesStr authResultMd ''Failed to'' \<or> includesStr authResultMd ''Error''
             \<or> includesStr authResultMd ''limit'' \<or> includesStr authResultMd ''failed''
             \<or> includesStr authResultMd ''not configured''
             \<or> includesStr authResultMd ''authenticate'')
    \<and> (\<forall>t listing. redditCredentials e \<and> redditAccessToken e w1 = (Inr t, w1)
           \<and> redditAuth e (clock w1) subreddit = AuthListing listing
           \<and> (includesStr listing ''limit'' \<or> includesStr listing ''Error'')
           \<longrightarrow> authResultMd = listing \<and> isError (fst (handleRedditURL e url w)))"
proof -
  have cached: "(case cacheGet w (''Reddit:'' @ url) of None \<Rightarrow> [] | Some v \<Rightarrow> v) = []"
    using miss by auto
  have h: "handleRedditURL e url w
       = (\<lparr>res_url = url, res_md = authResultMd,
            res_error = Some (hasErrorIndicators authResultMd),
            res_status = None, res_errorDetails = None\<rparr>, w2)"
    using subreddit cached public fallback auth
    by (auto simp add: handleRedditURL_def Let_def)
  have listing: "authResultMd = listing \<and> isError (fst (handleRedditURL e url w))"
    if "redditCredentials e" "redditAccessToken e w1 = (Inr t, w1)"
      "redditAuth e (clock w1) subreddit = AuthListing listing"
      "includesStr listing ''limit'' \<or> includesStr listing ''Error''" for t listing
  proof -
    have "authResultMd = listing"
      using auth that(1-3) by (simp add: fetchRedditAuthenticatedApi_def Let_def)
    with h that(4) show ?thesis
      by (auto simp add: isError_def hasErrorIndicators_def)
  qed
  from h listing show ?thesis
    by (simp add: hasErrorIndicators_def) blast
qed

text \<open>
  A run: the public API is rate limited, the token is fetched and cached, and the
  authenticated API answers with a listing whose only post is titled
  \<open>Speed limit raised on the ring road\<close>.
\<close>

theorem reddit_fallback_error_flag_witness:
  "matchSubreddit ''https://www.reddit.com/r/news'' = Some ''news''
   \<and> cacheGet authorizedWorld ''Reddit:https://www.reddit.com/r/news'' = None
   \<and> fst (fetchRedditPublicApi redditEnv ''news'' ''Reddit:https://www.reddit.com/r/news''
         authorizedWorld) = ([], True)
   \<and> fst (handleRedditURL redditEnv ''https://www.reddit.com/r/news'' authorizedWorld)
       = \<lparr>res_url = ''https://www.reddit.com/r/news'', res_md = limitListing,
          res_error = Some True, res_status = None, res_errorDetails = None\<rparr>"
proof -
  let ?u = "''https://www.reddit.com/r/news''"
  let ?w1 = "tick (ApiCall (''https://www.reddit.com/r/'' @ ''news'' @ ''/hot.json?limit=5''))
               authorizedWorld"
  have m: "matchSubreddit ?u = Some ''news''"
    by (simp add: isSubredditChar_def isDigit_def upperOf_def)
  have c: "cacheGet authorizedWorld (''Reddit:'' @ ?u) = None
      \<or> cacheGet authorizedWorld (''Reddit:'' @ ?u) = Some []"
    by (simp add: cacheGet_def authorizedWorld_fields)
  have f: "redditPublic redditEnv t s = PubRateLimited" "redditCredentials redditEnv"
    "redditToken redditEnv t = TokResponse ''token'' ''{}''"
    "redditAuth redditEnv t s = AuthListing limitListing" for t s
    by (simp_all add: redditEnv_def exampleEnv_def)
  have p: "fetchRedditPublicApi redditEnv ''news'' (''Reddit:'' @ ?u) authorizedWorld
      = (([], True), ?w1)"
    by (simp add: fetchRedditPublicApi_def f Let_def)
  have "cacheGet ?w1 ''Reddit:OAuthToken'' = None"
    by (simp add: cacheGet_def tick_def authorizedWorld_fields)
  then have "fst (fetchRedditAuthenticatedApi redditEnv ''news'' (''Reddit:'' @ ?u) ?w1)
      = limitListing"
    by (simp add: fetchRedditAuthenticatedApi_def redditAccessToken_def f Let_def)
  then have a: "fetchRedditAuthenticatedApi redditEnv ''news'' (''Reddit:'' @ ?u) ?w1
      = (limitListing, snd (fetchRedditAuthenticatedApi redditEnv ''news'' (''Reddit:'' @ ?u) ?w1))"
    by (simp add: prod_eq_iff)
  have i: "hasErrorIndicators limitListing"
    by (simp add: hasErrorIndicators_def limitListing_def)
  have r: "fst (handleRedditURL redditEnv ?u authorizedWorld)
      = \<lparr>res_url = ?u, res_md = limitListing, res_error = Some True, res_status = None,
         res_errorDetails = None\<rparr>"
    using reddit_fallback_error_flag [OF m c p _ a] i by simp
  have "cacheGet authorizedWorld ''Reddit:https://www.reddit.com/r/news'' = None"
    by (simp add: cacheGet_def authorizedWorld_fields)
  moreover have "fst (fetchRedditPublicApi redditEnv ''news''
      ''Reddit:https://www.reddit.com/r/news'' authorizedWorld) = ([], True)"
    by (simp add: fetchRedditPublicApi_def f Let_def)
  ultimately show ?thesis using m r by simp
qed

section \<open>A request for a single page, step by step\<close>

lemma cacheDeletes_simps [simp]:
  "cacheDeletes (tick ev w) = (case cacheDeleteOf ev of None \<Rightarrow> cacheDeletes w | Some x \<Rightarrow> x # cacheDeletes w)"
  "cacheDeletes (logEvent ev w) = (case cacheDeleteOf ev of None \<Rightarrow> cacheDeletes w | Some x \<Rightarrow> x # cacheDeletes w)"
  "cacheDeletes (cachePut key v ttl w) = cacheDeletes w"
  "cacheDeletes (cacheDelete key w) = key # cacheDeletes w"
  by (simp_all add: cacheDeletes_def tick_def logEvent_def cachePut_def cacheDelete_def
      List.map_filter_simps split: option.splits)

text \<open>\<open>ensureBrowser\<close> and the \<open>finally\<close> of \<open>fetch\<close> leave the data alone.\<close>

lemma sameData_refl [simp]: "sameData w w"
  by (simp add: sameData_def)

lemma sameData_trans: "sameData w w1 \<Longrightarrow> sameData w1 w2 \<Longrightarrow> sameData w w2"
  by (simp add: sameData_def)

lemma sameData_tick:
  "pageFetchOf ev = None \<Longrightarrow> cacheDeleteOf ev = None \<Longrightarrow> routedOf ev = None \<Longrightarrow>
     sameData w (tick ev w)"
  by (simp add: sameData_def)

lemma sameData_fields:
  "sameData w (w'\<lparr>browser := b\<rparr>) = sameData w w'"
  "sameData w (w'\<lparr>alarmSet := a\<rparr>) = sameData w w'"
  "sameData w (w'\<lparr>keptAliveInSeconds := k\<rparr>) = sameData w w'"
  "sameData w (w'\<lparr>storedKeptAlive := s\<rparr>) = sameData w w'"
  by (simp_all add: sameData_def pageFetches_def cacheDeletes_def routedLog_def)

lemma sameData_closeSessions: "sameData w (closeSessions ss w)"
proof (induction ss arbitrary: w)
  case Nil
  then show ?case by simp
next
  case (Cons s ss)
  obtain sessionId ok where s: "s = (sessionId, ok)" by (cases s)
  have "sameData w (tick (CloseSession sessionId ok) w)" by (simp add: sameData_tick)
  from sameData_trans [OF this Cons.IH] s show ?case by simp
qed

lemma sameData_cleanupSessions: "sameData w (cleanupSessions e w)"
proof (cases "sessionsAt e (clock w)")
  case None
  then show ?thesis by (simp add: cleanupSessions_def sameData_tick)
next
  case (Some ss)
  have "sameData w (tick (ListSessions True) w)" by (simp add: sameData_tick)
  from sameData_trans [OF this sameData_closeSessions] Some show ?thesis
    by (simp add: cleanupSessions_def)
qed

lemma sameData_launch: "sameData w (snd (launch e w))"
  by (simp add: launch_def sameData_fields sameData_tick)

lemma sameData_isBrowserConnected: "sameData w (snd (isBrowserConnected e w))"
  by (simp add: isBrowserConnected_def sameData_tick split: option.splits)

lemma sameData_ensureLoop: "sameData w (snd (ensureLoop e n w))"
proof (induction n arbitrary: w)
  case 0
  then show ?case by simp
next
  case (Suc n)
  let ?c = "if browser w = None then (False, w) else isBrowserConnected e w"
  have c: "sameData w (snd ?c)" by (simp add: sameData_isBrowserConnected)
  have l: "sameData w (snd (launch e (snd ?c)))"
    by (rule sameData_trans [OF c sameData_launch])
  have k: "sameData w (cleanupSessions e (snd (launch e (snd ?c))))"
    by (rule sameData_trans [OF l sameData_cleanupSessions])
  have "sameData w (snd (ensureLoop e n (cleanupSessions e (snd (launch e (snd ?c))))))"
    by (rule sameData_trans [OF k Suc.IH])
  with c l show ?case
    by (cases ?c; cases "launch e (snd ?c)") (auto simp add: Let_def)
qed

lemma sameData_ensureBrowser: "sameData w (snd (ensureBrowser e w))"
  by (simp add: ensureBrowser_def sameData_ensureLoop)

lemma sameData_ensureAlarmIsSet: "sameData w (ensureAlarmIsSet e w)"
  by (simp add: ensureAlarmIsSet_def setAlarm_def sameData_fields sameData_tick)

lemma ensureBrowser_succeeds:
  assumes "\<forall>t. launchOk e t \<and> probeOk e t"
  shows "fst (ensureBrowser e w)"
  using assms
  by (simp add: ensureBrowser_def numeral_3_eq_3 isBrowserConnected_def launch_def Let_def
      split: option.splits)

text \<open>The fan-out over a single URL is the operation on that URL.\<close>

lemma promiseAll_single:
  "promiseAll e picks [url] w = ([fst (processUrl e url w)], snd (processUrl e url w))"
  by (cases "processUrl e url w"; cases picks) (simp_all add: promiseAll_def)

lemma getWebsiteMarkdown_single:
  assumes "fst (ensureBrowser e w)"
  shows "getWebsiteMarkdown e picks [url] w
     = ([fst (processUrl e url (snd (ensureBrowser e w)))],
        snd (processUrl e url (snd (ensureBrowser e w))))"
  using assms
  by (cases "ensureBrowser e w") (simp add: getWebsiteMarkdown_def promiseAll_single)

text \<open>
  A \<open>GET\<close> request for a single page, in an outside world where the browser can always
  be had: the operation runs on the requested URL in a state with the request's token
  and filter flag and the data of the state before, and the answer is made of its result.
\<close>

lemma fetch_single_page:
  assumes "req_method req = ''GET''" "\<not> req_subpages req" "requestedUrl e req = url"
    and "url \<noteq> []" "isValidUrl url" "\<forall>t. launchOk e t \<and> probeOk e t"
  shows "\<exists>wE. sameData (w\<lparr>token := req_token req, llmFilter := req_llmFilter req\<rparr>) wE
      \<and> sameData (snd (processUrl e url wE)) (snd (fetch e picks req w))
      \<and> fst (fetch e picks req w)
          = singlePageResponse e url (req_json req) (fst (processUrl e url wE))
              (snd (processUrl e url wE))"
proof -
  let ?w0 = "w\<lparr>token := req_token req, llmFilter := req_llmFilter req\<rparr>"
  note ok = ensureBrowser_succeeds [OF assms(6)]
  obtain w1 where e0: "ensureBrowser e ?w0 = (True, w1)"
    using ok [of ?w0] by (cases "ensureBrowser e ?w0") auto
  obtain wE where e1: "ensureBrowser e w1 = (True, wE)"
    using ok [of w1] by (cases "ensureBrowser e w1") auto
  obtain r wP where p: "processUrl e url wE = (r, wP)"
    by (cases "processUrl e url wE")
  have g: "getWebsiteMarkdown e picks [url] w1 = ([r], wP)"
    using getWebsiteMarkdown_single [OF ok, of picks url w1] e1 p by simp
  have body: "fetchBody e picks req w = (singlePageResponse e url (req_json req) r wP, wP)"
    using assms(1-5) e0 g by (simp add: fetchBody_def processSinglePage_def Let_def)
  have "sameData ?w0 w1" "sameData w1 wE"
    using sameData_ensureBrowser [of ?w0 e] sameData_ensureBrowser [of w1 e] e0 e1 by simp_all
  then have "sameData ?w0 wE" by (rule sameData_trans)
  moreover have "sameData wP (snd (fetch e picks req w))"
    using sameData_ensureAlarmIsSet [of "wP\<lparr>keptAliveInSeconds := 0\<rparr>" e]
    by (simp add: fetch_def body sameData_def pageFetches_def cacheDeletes_def routedLog_def)
  moreover have "fst (fetch e picks req w) = singlePageResponse e url (req_json req) r wP"
    by (simp add: fetch_def body)
  ultimately show ?thesis using p by (intro exI [of _ wE]) simp
qed

text \<open>The default branch with bypass: the key is deleted, then the page is fetched.\<close>

lemma processUrl_default_bypass:
  assumes "\<not> fst (rateLimited e w)" "\<not> isYouTubeUrl url" "\<not> isTwitterUrl url" "\<not> isRedditUrl url"
    and "urlHasNocache e url = Inr True \<or> (\<exists>b. urlHasNocache e url = Inr b) \<and> includesStr url ''nocache=true''"
    and "key = ''Default:'' @ url @ (if llmFilter w then ''-llm'' else [])"
    and "md = handleDefaultPage e (clock (snd (rateLimited e w))) url"
    and "w0 = cacheDelete key (logEvent (Routed url DefaultPage) (snd (rateLimited e w)))"
  shows "processUrl e url w =
     (if startsWith md ''## Error''
      then (\<lparr>res_url = url, res_md = md, res_error = Some True,
             res_status = Some (if includesStr md ''Timeout'' then 504 else 500),
             res_errorDetails = Some md\<rparr>, tick (PageFetch url) w0)
      else if llmFilter w
      then (plainResult url (applyLlmFilter e (Suc (clock (snd (rateLimited e w)))) md),
            cachePut key (applyLlmFilter e (Suc (clock (snd (rateLimited e w)))) md) 3600
              (tick LlmFilterCall (tick (PageFetch url) w0)))
      else (plainResult url md, cachePut key md 3600 (tick (PageFetch url) w0)))"
  using assms(5-8) processUrl_default [OF assms(1-4)]
  by (auto simp add: processUrl_def defaultBranch_def Let_def rateLimited_frame)

text \<open>
  C3 on the code: a request for \<open>https://example.com/\<close> with \<open>nocache=true\<close>, while the
  cache holds a stale entry under \<open>Default:https://example.com/\<close>, the key that a request
  without bypass reads. The URL is rewritten first, so the key deleted (and then written)
  is \<open>Default:https://example.com/?nocache=true\<close>; the page is fetched, as the claim
  says, but the stale entry stays, and the next request without bypass is answered from
  it without a fetch.
\<close>

theorem nocache_leaves_stale_entry:
  "cacheDeletes (snd (fetch exampleEnv [] (bypassRequest ''https://example.com/'') staleWorld))
     = [''Default:https://example.com/?nocache=true'']
   \<and> pageFetches (snd (fetch exampleEnv [] (bypassRequest ''https://example.com/'') staleWorld))
     = [''https://example.com/?nocache=true'']
   \<and> cache (snd (fetch exampleEnv [] (bypassRequest ''https://example.com/'') staleWorld))
       ''Default:https://example.com/'' = Some (''# stale'', 3600)
   \<and> cache (snd (fetch exampleEnv [] (bypassRequest ''https://example.com/'') staleWorld))
       ''Default:https://example.com/?nocache=true''
     = Some (''# page'' @ [CHR 0x0A, CHR 0x0A] @ ''fresh content'', 3600)
   \<and> pageFetches (snd (fetch exampleEnv [] (getRequest (Some ''https://example.com/''))
        (snd (fetch exampleEnv [] (bypassRequest ''https://example.com/'') staleWorld))))
     = [''https://example.com/?nocache=true'']
   \<and> fst (fetch exampleEnv [] (getRequest (Some ''https://example.com/''))
        (snd (fetch exampleEnv [] (bypassRequest ''https://example.com/'') staleWorld)))
     = Response 200 ''application/json''
         (JsonResults [plainResult ''https://example.com/''
            (convertToMagiFormat exampleMagiEnv ''https://example.com/'' ''# stale'')])"
proof -
  let ?U = "''https://example.com/''"
  let ?U' = "''https://example.com/?nocache=true''"
  let ?K = "''Default:https://example.com/''"
  let ?K' = "''Default:https://example.com/?nocache=true''"
  let ?page = "''# page'' @ [CHR 0x0A, CHR 0x0A] @ ''fresh content''"
  let ?W1 = "snd (fetch exampleEnv [] (bypassRequest ?U) staleWorld)"
  let ?W2 = "snd (fetch exampleEnv [] (getRequest (Some ?U)) ?W1)"
  have ok: "\<forall>t. launchOk exampleEnv t \<and> probeOk exampleEnv t"
    by (simp add: exampleEnv_fields)
  have req1: "req_method (bypassRequest ?U) = ''GET''" "\<not> req_subpages (bypassRequest ?U)"
    "requestedUrl exampleEnv (bypassRequest ?U) = ?U'"
    "req_token (bypassRequest ?U) = ''secret''" "req_llmFilter (bypassRequest ?U) = False"
    "req_json (bypassRequest ?U)"
    by (simp_all add: bypassRequest_def getRequest_def requestedUrl_def exampleEnv_fields)
  have req2: "req_method (getRequest (Some ?U)) = ''GET''" "\<not> req_subpages (getRequest (Some ?U))"
    "requestedUrl exampleEnv (getRequest (Some ?U)) = ?U"
    "req_token (getRequest (Some ?U)) = ''secret''" "req_llmFilter (getRequest (Some ?U)) = False"
    "req_json (getRequest (Some ?U))"
    by (simp_all add: getRequest_def requestedUrl_def)
  have valid: "?U' \<noteq> []" "isValidUrl ?U'" "?U \<noteq> []" "isValidUrl ?U"
    by (simp_all add: isValidUrl_def)
  have u': "\<not> isYouTubeUrl ?U'" "\<not> isTwitterUrl ?U'" "\<not> isRedditUrl ?U'"
    "urlHasNocache exampleEnv ?U' = Inr True"
    by (simp_all add: isYouTubeUrl_def isTwitterUrl_def isRedditUrl_def exampleEnv_fields)
  have u: "\<not> isYouTubeUrl ?U" "\<not> isTwitterUrl ?U" "\<not> isRedditUrl ?U"
    "urlHasNocache exampleEnv ?U = Inr False" "\<not> includesStr ?U ''nocache=true''"
    by (simp_all add: isYouTubeUrl_def isTwitterUrl_def isRedditUrl_def exampleEnv_fields)
  have stale: "cache staleWorld = [?K \<mapsto> (''# stale'', 3600)]" "pageFetches staleWorld = []"
    "cacheDeletes staleWorld = []"
    by (simp_all add: staleWorld_fields pageFetches_def cacheDeletes_def List.map_filter_simps)
  \<comment> \<open>the request with bypass\<close>
  from fetch_single_page [OF req1(1,2,3) valid(1,2) ok, of staleWorld "[]"]
  obtain wE where wE:
    "sameData (staleWorld\<lparr>token := req_token (bypassRequest ?U),
        llmFilter := req_llmFilter (bypassRequest ?U)\<rparr>) wE"
    "sameData (snd (processUrl exampleEnv ?U' wE)) ?W1"
    by blast
  from wE(1) stale have dE: "cache wE = [?K \<mapsto> (''# stale'', 3600)]" "token wE = ''secret''"
    "llmFilter wE = False" "pageFetches wE = []" "cacheDeletes wE = []"
    by (simp_all add: sameData_def req1 pageFetches_def cacheDeletes_def)
  have rlE: "rateLimited exampleEnv wE = (False, wE)"
    by (simp add: rateLimited_authorized dE exampleEnv_fields)
  have kE: "?K' = ''Default:'' @ ?U' @ (if llmFilter wE then ''-llm'' else [])"
    by (simp add: dE)
  have p1: "processUrl exampleEnv ?U' wE
      = (plainResult ?U' ?page,
         cachePut ?K' ?page 3600
           (tick (PageFetch ?U') (cacheDelete ?K' (logEvent (Routed ?U' DefaultPage) wE))))"
    using processUrl_default_bypass [of exampleEnv wE ?U', OF _ u'(1-3) _ kE refl refl] u'(4)
    by (simp add: rlE dE exampleEnv_fields)
  from wE(2) have d1: "cacheDeletes ?W1 = [?K']" "pageFetches ?W1 = [?U']"
    "cache ?W1 ?K = Some (''# stale'', 3600)" "cache ?W1 ?K' = Some (?page, 3600)"
    "token ?W1 = ''secret''" "llmFilter ?W1 = False"
    by (simp_all add: sameData_def p1 dE)
  \<comment> \<open>the next request, without bypass\<close>
  from fetch_single_page [OF req2(1,2,3) valid(3,4) ok, of ?W1 "[]"]
  obtain wF where wF:
    "sameData (?W1\<lparr>token := req_token (getRequest (Some ?U)),
        llmFilter := req_llmFilter (getRequest (Some ?U))\<rparr>) wF"
    "sameData (snd (processUrl exampleEnv ?U wF)) ?W2"
    "fst (fetch exampleEnv [] (getRequest (Some ?U)) ?W1)
       = singlePageResponse exampleEnv ?U (req_json (getRequest (Some ?U)))
           (fst (processUrl exampleEnv ?U wF)) (snd (processUrl exampleEnv ?U wF))"
    by blast
  from wF(1) d1 have dF: "cache wF ?K = Some (''# stale'', 3600)" "token wF = ''secret''"
    "llmFilter wF = False" "pageFetches wF = [?U']"
    by (simp_all add: sameData_def req2 pageFetches_def)
  have rlF: "rateLimited exampleEnv wF = (False, wF)"
    by (simp add: rateLimited_authorized dF exampleEnv_fields)
  have "cache wF (''Default:'' @ ?U @ (if llmFilter wF then ''-llm'' else []))
      = Some (''# stale'', 3600)"
    using dF by simp
  from processUrl_default_hit [of exampleEnv wF ?U, OF _ u this]
  have p2: "processUrl exampleEnv ?U wF
      = (plainResult ?U ''# stale'', logEvent (Routed ?U DefaultPage) wF)"
    by (simp add: rlF)
  from wF(2) have d2: "pageFetches ?W2 = [?U']"
    by (simp add: sameData_def p2 dF)
  have r2: "fst (fetch exampleEnv [] (getRequest (Some ?U)) ?W1)
      = Response 200 ''application/json''
          (JsonResults [plainResult ?U (convertToMagiFormat exampleMagiEnv ?U ''# stale'')])"
    unfolding wF(3) p2
    by (simp add: singlePageResponse_def isError_def plainResult_def req2 exampleEnv_fields)
  from d1 d2 r2 show ?thesis by simp
qed

section \<open>The fan-out\<close>











end
